theory Spec2Isabelle
  imports Main "HOL-Library.Word"
begin

unbundle bit_operations_syntax

section \<open>Renderbuffer.cpp (namespace es1): data model\<close>

text \<open>
  C++ \<open>int\<close>, \<open>GLsizei\<close> (signed) and \<open>GLenum\<close>, \<open>GLuint\<close> (unsigned) are
  32-bit words; a signed comparison is written with \<open><s\<close>. A C++ pointer is an optional
  address: \<open>None\<close> is \<open>nullptr\<close>. Every class of objects lives in its own typed heap, a map
  from addresses to objects; an address that is not in the heap is an object that has been
  deleted.
\<close>

type_synonym cint = "32 word"
type_synonym GLsizei = "32 word"
type_synonym GLenum = "32 word"
type_synonym GLuint = "32 word"
type_synonym addr = nat
type_synonym ptr = "addr option"

text \<open>The GL enumerators the file names, with their values in the Khronos headers.\<close>

definition GL_RGBA4_OES :: GLenum where "GL_RGBA4_OES = 0x8056"
definition GL_DEPTH_COMPONENT16_OES :: GLenum where "GL_DEPTH_COMPONENT16_OES = 0x81A5"
definition GL_STENCIL_INDEX8_OES :: GLenum where "GL_STENCIL_INDEX8_OES = 0x8D48"
definition GL_DEPTH24_STENCIL8_OES :: GLenum where "GL_DEPTH24_STENCIL8_OES = 0x88F0"
definition GL_OUT_OF_MEMORY :: GLenum where "GL_OUT_OF_MEMORY = 0x0505"
definition GL_TEXTURE_2D :: GLenum where "GL_TEXTURE_2D = 0x0DE1"

text \<open>
  \<open>sw::Format\<close> is declared outside this file. The two enumerators the file names are
  constructors; every other enumerator is carried by its number.
\<close>

datatype Format = FORMAT_A8B8G8R8 | FORMAT_D24S8 | FORMAT_enumerator nat

text \<open>What running a member function on a bad pointer, or a failed ASSERT, gives.\<close>

datatype fault = NullPointerDereference | UseAfterFree | AssertionFailure

definition andThen :: "fault + 'a \<Rightarrow> ('a \<Rightarrow> fault + 'b) \<Rightarrow> fault + 'b" where
  "andThen r f = (case r of Inl e \<Rightarrow> Inl e | Inr x \<Rightarrow> f x)"

text \<open>
  Modelled from the spec: \<open>egl::Image\<close> is defined outside this file. The spec gives it a
  reference count, a width, a height, a depth, an internal format and a shared flag that
  \<open>markShared\<close> sets and nothing clears.
\<close>

record Image =
  imageReferenceCount :: nat
  imageShared :: bool
  imageWidth :: cint
  imageHeight :: cint
  imageDepth :: cint
  imageInternalFormat :: Format

text \<open>
  Modelled from the spec: \<open>Texture2D\<close> is defined outside this file. Its answers for a
  target and a level are fields of its state; its proxy reference count is the number of
  \<open>addProxyRef\<close> calls not yet matched by a \<open>releaseProxy\<close>.
\<close>

record Texture2D =
  textureImage :: "GLenum \<Rightarrow> cint \<Rightarrow> ptr"
  textureIsShared :: "GLenum \<Rightarrow> cint \<Rightarrow> bool"
  textureWidth :: "GLenum \<Rightarrow> cint \<Rightarrow> GLsizei"
  textureHeight :: "GLenum \<Rightarrow> cint \<Rightarrow> GLsizei"
  textureFormat :: "GLenum \<Rightarrow> cint \<Rightarrow> GLenum"
  textureInternalFormat :: "GLenum \<Rightarrow> cint \<Rightarrow> Format"
  textureProxyRefs :: nat

text \<open>
  The classes of the file. \<open>Colorbuffer\<close> and \<open>DepthStencilbuffer\<close> extend
  \<open>RenderbufferStorage\<close> by their Image pointer. \<open>Depthbuffer\<close> and \<open>Stencilbuffer\<close>
  add to \<open>DepthStencilbuffer\<close> neither a field nor an override, only constructors: their
  objects are \<open>DepthStencilbuffer\<close> records.
\<close>

record RenderbufferTexture2D =
  mTexture2D :: ptr

record RenderbufferStorage =
  mWidth :: GLsizei
  mHeight :: GLsizei
  format :: GLenum
  internalFormat :: Format
  mSamples :: GLsizei

record Colorbuffer = RenderbufferStorage +
  mRenderTarget :: ptr

record DepthStencilbuffer = RenderbufferStorage +
  mDepthStencil :: ptr

datatype RenderbufferInterface =
    is_RenderbufferTexture2D: Instance_RenderbufferTexture2D RenderbufferTexture2D
  | is_Colorbuffer: Instance_Colorbuffer Colorbuffer
  | is_DepthStencilbuffer: Instance_DepthStencilbuffer DepthStencilbuffer

text \<open>
  \<open>Renderbuffer\<close>: the name comes from \<open>NamedObject\<close>, the reference count from \<open>Object\<close>
  (both outside this file), \<open>mInstance\<close> is its own field.
\<close>

record Renderbuffer =
  name :: GLuint
  referenceCount :: nat
  mInstance :: ptr

text \<open>
  The calls that leave this file with an effect, in the order they are made: the error
  sink, the device, and the reference counting of images, textures and objects.
\<close>

datatype call =
    Call_error GLenum
  | Call_createRenderTarget cint cint Format cint bool
  | Call_createDepthStencilSurface cint cint Format cint bool
  | Call_Image_addRef addr
  | Call_Image_release addr
  | Call_Image_markShared addr
  | Call_Texture2D_addProxyRef addr addr
  | Call_Texture2D_releaseProxy addr addr
  | Call_Texture2D_getRenderTarget addr GLenum cint
  | Call_Texture2D_createSharedImage addr GLenum cint
  | Call_Object_addRef addr
  | Call_Object_release addr

record world =
  images :: "addr \<rightharpoonup> Image"
  textures :: "addr \<rightharpoonup> Texture2D"
  instances :: "addr \<rightharpoonup> RenderbufferInterface"
  renderbuffers :: "addr \<rightharpoonup> Renderbuffer"
  calls :: "call list"

text \<open>
  The functions of other files that this file calls and whose code decides their result:
  the format conversions of \<open>es2sw\<close> and \<open>sw2es\<close>, the bit sizes of \<open>sw2es\<close>,
  \<open>Context::getSupportedMultisampleCount\<close>, and the two allocators of the device returned
  by \<open>getDevice()\<close>, which take the heap of images and return a pointer (null on failure)
  and the heap they leave.
\<close>

record collaborators =
  ConvertRenderbufferFormat :: "GLenum \<Rightarrow> Format"
  ConvertBackBufferFormat :: "Format \<Rightarrow> GLenum"
  ConvertDepthStencilFormat :: "Format \<Rightarrow> GLenum"
  GetRedSize :: "Format \<Rightarrow> GLuint"
  GetGreenSize :: "Format \<Rightarrow> GLuint"
  GetBlueSize :: "Format \<Rightarrow> GLuint"
  GetAlphaSize :: "Format \<Rightarrow> GLuint"
  GetDepthSize :: "Format \<Rightarrow> GLuint"
  GetStencilSize :: "Format \<Rightarrow> GLuint"
  getSupportedMultisampleCount :: "GLsizei \<Rightarrow> cint"
  createRenderTarget ::
    "cint \<Rightarrow> cint \<Rightarrow> Format \<Rightarrow> cint \<Rightarrow> bool \<Rightarrow> (addr \<rightharpoonup> Image) \<Rightarrow> ptr \<times> (addr \<rightharpoonup> Image)"
  createDepthStencilSurface ::
    "cint \<Rightarrow> cint \<Rightarrow> Format \<Rightarrow> cint \<Rightarrow> bool \<Rightarrow> (addr \<rightharpoonup> Image) \<Rightarrow> ptr \<times> (addr \<rightharpoonup> Image)"

section \<open>The collaborators' operations\<close>

definition log_call :: "call \<Rightarrow> world \<Rightarrow> world" where
  "log_call c w = w\<lparr>calls := calls w @ [c]\<rparr>"

text \<open>
  Modelled from the spec: \<open>error(code)\<close> is outside this file; it hands the code to the
  process-wide error sink.
\<close>

definition error :: "GLenum \<Rightarrow> world \<Rightarrow> world" where
  "error code w = log_call (Call_error code) w"

text \<open>
  Modelled from the spec: \<open>Image::addRef\<close> is outside this file; it takes one more
  reference to a reference-counted Image.
\<close>

definition Image_addRef :: "addr \<Rightarrow> world \<Rightarrow> fault + world" where
  "Image_addRef a w =
     (case images w a of
        None \<Rightarrow> Inl UseAfterFree
      | Some img \<Rightarrow>
          Inr (log_call (Call_Image_addRef a)
            (w\<lparr>images := (images w)(a \<mapsto> img\<lparr>imageReferenceCount := imageReferenceCount img + 1\<rparr>)\<rparr>)))"

text \<open>
  Modelled from the spec: \<open>Image::release\<close> is outside this file; it gives one reference
  back, and the Image is destroyed when the last reference is released.
\<close>

definition Image_release :: "addr \<Rightarrow> world \<Rightarrow> fault + world" where
  "Image_release a w =
     (case images w a of
        None \<Rightarrow> Inl UseAfterFree
      | Some img \<Rightarrow>
          Inr (log_call (Call_Image_release a)
            (if imageReferenceCount img \<le> 1
             then w\<lparr>images := (images w)(a := None)\<rparr>
             else w\<lparr>images := (images w)(a \<mapsto> img\<lparr>imageReferenceCount := imageReferenceCount img - 1\<rparr>)\<rparr>)))"

text \<open>
  Modelled from the spec: \<open>Image::markShared\<close> is outside this file; it sets the shared
  flag, which nothing clears.
\<close>

definition Image_markShared :: "addr \<Rightarrow> world \<Rightarrow> fault + world" where
  "Image_markShared a w =
     (case images w a of
        None \<Rightarrow> Inl UseAfterFree
      | Some img \<Rightarrow>
          Inr (log_call (Call_Image_markShared a)
            (w\<lparr>images := (images w)(a \<mapsto> img\<lparr>imageShared := True\<rparr>)\<rparr>)))"

text \<open>
  Modelled from the spec: the getters of \<open>Image\<close> (\<open>getWidth\<close>, \<open>getHeight\<close>,
  \<open>getDepth\<close>, \<open>getInternalFormat\<close>) are outside this file; they read the fields of
  the Image that the pointer addresses.
\<close>

definition Image_deref :: "addr \<Rightarrow> world \<Rightarrow> fault + Image" where
  "Image_deref a w = (case images w a of None \<Rightarrow> Inl UseAfterFree | Some img \<Rightarrow> Inr img)"

text \<open>
  Modelled from the spec: \<open>Image::isShared\<close> is outside this file; it reads the shared
  flag.
\<close>

definition Image_isShared :: "addr \<Rightarrow> world \<Rightarrow> fault + bool" where
  "Image_isShared a w = andThen (Image_deref a w) (\<lambda>img. Inr (imageShared img))"

text \<open>
  Modelled from the spec: \<open>Texture2D::addProxyRef\<close> is outside this file; the texture's
  proxy reference count tracks the Renderbuffers that alias it, so the call counts one more.
\<close>

definition Texture2D_addProxyRef :: "addr \<Rightarrow> addr \<Rightarrow> world \<Rightarrow> fault + world" where
  "Texture2D_addProxyRef t proxy w =
     (case textures w t of
        None \<Rightarrow> Inl UseAfterFree
      | Some tex \<Rightarrow>
          Inr (log_call (Call_Texture2D_addProxyRef t proxy)
            (w\<lparr>textures := (textures w)(t \<mapsto> tex\<lparr>textureProxyRefs := textureProxyRefs tex + 1\<rparr>)\<rparr>)))"

text \<open>
  Modelled from the spec: \<open>Texture2D::releaseProxy\<close> is outside this file; it counts one
  proxy reference less.
\<close>

definition Texture2D_releaseProxy :: "addr \<Rightarrow> addr \<Rightarrow> world \<Rightarrow> fault + world" where
  "Texture2D_releaseProxy t proxy w =
     (case textures w t of
        None \<Rightarrow> Inl UseAfterFree
      | Some tex \<Rightarrow>
          Inr (log_call (Call_Texture2D_releaseProxy t proxy)
            (w\<lparr>textures := (textures w)(t \<mapsto> tex\<lparr>textureProxyRefs := textureProxyRefs tex - 1\<rparr>)\<rparr>)))"

text \<open>
  Modelled from the spec: \<open>Texture2D::getRenderTarget\<close> is outside this file; it returns
  a new owning reference to the Image behind the target and level, or null.
\<close>

definition Texture2D_getRenderTarget ::
  "addr \<Rightarrow> GLenum \<Rightarrow> cint \<Rightarrow> world \<Rightarrow> fault + (ptr \<times> world)" where
  "Texture2D_getRenderTarget t target level w =
     (case textures w t of
        None \<Rightarrow> Inl UseAfterFree
      | Some tex \<Rightarrow>
          (let w1 = log_call (Call_Texture2D_getRenderTarget t target level) w in
           case textureImage tex target level of
             None \<Rightarrow> Inr (None, w1)
           | Some a \<Rightarrow> andThen (Image_addRef a w1) (\<lambda>w2. Inr (Some a, w2))))"

text \<open>
  Modelled from the spec: \<open>Texture2D::createSharedImage\<close> is outside this file; it does
  what \<open>getRenderTarget\<close> does and marks the Image as shared.
\<close>

definition Texture2D_createSharedImage ::
  "addr \<Rightarrow> GLenum \<Rightarrow> cint \<Rightarrow> world \<Rightarrow> fault + (ptr \<times> world)" where
  "Texture2D_createSharedImage t target level w =
     (case textures w t of
        None \<Rightarrow> Inl UseAfterFree
      | Some tex \<Rightarrow>
          (let w1 = log_call (Call_Texture2D_createSharedImage t target level) w in
           case textureImage tex target level of
             None \<Rightarrow> Inr (None, w1)
           | Some a \<Rightarrow>
               andThen (Image_addRef a w1) (\<lambda>w2.
               andThen (Image_markShared a w2) (\<lambda>w3. Inr (Some a, w3)))))"

text \<open>
  Modelled from the spec: the queries of \<open>Texture2D\<close> (\<open>isShared\<close>, \<open>getWidth\<close>,
  \<open>getHeight\<close>, \<open>getFormat\<close>, \<open>getInternalFormat\<close>) are outside this file; for a
  target and a level they read the texture's current state.
\<close>

definition Texture2D_get ::
  "(Texture2D \<Rightarrow> GLenum \<Rightarrow> cint \<Rightarrow> 'a) \<Rightarrow> addr \<Rightarrow> GLenum \<Rightarrow> cint \<Rightarrow> world \<Rightarrow> fault + 'a" where
  "Texture2D_get query t target level w =
     (case textures w t of None \<Rightarrow> Inl UseAfterFree | Some tex \<Rightarrow> Inr (query tex target level))"

section \<open>RenderbufferInterface\<close>

text \<open>The base class's hooks do nothing (lines 34-40).\<close>

definition RenderbufferInterface_addProxyRef :: "addr \<Rightarrow> world \<Rightarrow> fault + world" where
  "RenderbufferInterface_addProxyRef proxy w = Inr w"

definition RenderbufferInterface_releaseProxy :: "addr \<Rightarrow> world \<Rightarrow> fault + world" where
  "RenderbufferInterface_releaseProxy proxy w = Inr w"

section \<open>RenderbufferTexture2D\<close>

definition RenderbufferTexture2D_ctor :: "ptr \<Rightarrow> RenderbufferTexture2D" where
  "RenderbufferTexture2D_ctor texture = \<lparr>mTexture2D = texture\<rparr>"

text \<open>The destructor clears the field of the object that goes away and calls nothing.\<close>

definition RenderbufferTexture2D_dtor :: "RenderbufferTexture2D \<Rightarrow> world \<Rightarrow> fault + world" where
  "RenderbufferTexture2D_dtor this w = Inr w"

definition texture_of :: "RenderbufferTexture2D \<Rightarrow> fault + addr" where
  "texture_of this =
     (case mTexture2D this of None \<Rightarrow> Inl NullPointerDereference | Some t \<Rightarrow> Inr t)"

definition RenderbufferTexture2D_addProxyRef ::
  "RenderbufferTexture2D \<Rightarrow> addr \<Rightarrow> world \<Rightarrow> fault + world" where
  "RenderbufferTexture2D_addProxyRef this proxy w =
     andThen (texture_of this) (\<lambda>t. Texture2D_addProxyRef t proxy w)"

definition RenderbufferTexture2D_releaseProxy ::
  "RenderbufferTexture2D \<Rightarrow> addr \<Rightarrow> world \<Rightarrow> fault + world" where
  "RenderbufferTexture2D_releaseProxy this proxy w =
     andThen (texture_of this) (\<lambda>t. Texture2D_releaseProxy t proxy w)"

definition RenderbufferTexture2D_getRenderTarget ::
  "RenderbufferTexture2D \<Rightarrow> world \<Rightarrow> fault + (ptr \<times> world)" where
  "RenderbufferTexture2D_getRenderTarget this w =
     andThen (texture_of this) (\<lambda>t. Texture2D_getRenderTarget t GL_TEXTURE_2D 0 w)"

definition RenderbufferTexture2D_createSharedImage ::
  "RenderbufferTexture2D \<Rightarrow> world \<Rightarrow> fault + (ptr \<times> world)" where
  "RenderbufferTexture2D_createSharedImage this w =
     andThen (texture_of this) (\<lambda>t. Texture2D_createSharedImage t GL_TEXTURE_2D 0 w)"

definition RenderbufferTexture2D_isShared :: "RenderbufferTexture2D \<Rightarrow> world \<Rightarrow> fault + bool" where
  "RenderbufferTexture2D_isShared this w =
     andThen (texture_of this) (\<lambda>t. Texture2D_get textureIsShared t GL_TEXTURE_2D 0 w)"

definition RenderbufferTexture2D_getWidth :: "RenderbufferTexture2D \<Rightarrow> world \<Rightarrow> fault + GLsizei" where
  "RenderbufferTexture2D_getWidth this w =
     andThen (texture_of this) (\<lambda>t. Texture2D_get textureWidth t GL_TEXTURE_2D 0 w)"

definition RenderbufferTexture2D_getHeight :: "RenderbufferTexture2D \<Rightarrow> world \<Rightarrow> fault + GLsizei" where
  "RenderbufferTexture2D_getHeight this w =
     andThen (texture_of this) (\<lambda>t. Texture2D_get textureHeight t GL_TEXTURE_2D 0 w)"

definition RenderbufferTexture2D_getFormat :: "RenderbufferTexture2D \<Rightarrow> world \<Rightarrow> fault + GLenum" where
  "RenderbufferTexture2D_getFormat this w =
     andThen (texture_of this) (\<lambda>t. Texture2D_get textureFormat t GL_TEXTURE_2D 0 w)"

definition RenderbufferTexture2D_getInternalFormat ::
  "RenderbufferTexture2D \<Rightarrow> world \<Rightarrow> fault + Format" where
  "RenderbufferTexture2D_getInternalFormat this w =
     andThen (texture_of this) (\<lambda>t. Texture2D_get textureInternalFormat t GL_TEXTURE_2D 0 w)"

definition RenderbufferTexture2D_getSamples :: "RenderbufferTexture2D \<Rightarrow> GLsizei" where
  "RenderbufferTexture2D_getSamples this = 0"

section \<open>RenderbufferStorage\<close>

text \<open>
  The base constructor sets the five fields; \<open>rest\<close> is the part of the object that the
  derived class adds, set by its member initialiser.
\<close>

definition RenderbufferStorage_ctor :: "'a \<Rightarrow> 'a RenderbufferStorage_scheme" where
  "RenderbufferStorage_ctor rest =
     \<lparr>mWidth = 0, mHeight = 0, format = GL_RGBA4_OES, internalFormat = FORMAT_A8B8G8R8,
      mSamples = 0, \<dots> = rest\<rparr>"

definition RenderbufferStorage_getWidth :: "'a RenderbufferStorage_scheme \<Rightarrow> GLsizei" where
  "RenderbufferStorage_getWidth this = mWidth this"

definition RenderbufferStorage_getHeight :: "'a RenderbufferStorage_scheme \<Rightarrow> GLsizei" where
  "RenderbufferStorage_getHeight this = mHeight this"

definition RenderbufferStorage_getFormat :: "'a RenderbufferStorage_scheme \<Rightarrow> GLenum" where
  "RenderbufferStorage_getFormat this = format this"

definition RenderbufferStorage_getInternalFormat :: "'a RenderbufferStorage_scheme \<Rightarrow> Format" where
  "RenderbufferStorage_getInternalFormat this = internalFormat this"

definition RenderbufferStorage_getSamples :: "'a RenderbufferStorage_scheme \<Rightarrow> GLsizei" where
  "RenderbufferStorage_getSamples this = mSamples this"

section \<open>Colorbuffer\<close>

text \<open>
  Wrap mode (lines 289-301). After \<open>addRef()\<close> the getters read the Image that the
  pointer addresses; the assignments keep the order of the source.
\<close>

definition Colorbuffer_ctor_Image ::
  "collaborators \<Rightarrow> ptr \<Rightarrow> world \<Rightarrow> fault + (Colorbuffer \<times> world)" where
  "Colorbuffer_ctor_Image env renderTarget w =
     (let this = RenderbufferStorage_ctor (Colorbuffer.fields renderTarget) in
      case renderTarget of
        None \<Rightarrow> Inr (this, w)
      | Some a \<Rightarrow>
          andThen (Image_addRef a w) (\<lambda>w1.
          andThen (Image_deref a w1) (\<lambda>img.
            Inr (this\<lparr>mWidth := imageWidth img,
                      mHeight := imageHeight img,
                      internalFormat := imageInternalFormat img,
                      format := ConvertBackBufferFormat env (imageInternalFormat img),
                      mSamples := imageDepth img AND NOT 1\<rparr>, w1))))"

text \<open>
  Allocate mode (lines 303-326). When the device returns null the constructor raises the
  error and returns before the five assignments.
\<close>

definition Colorbuffer_ctor ::
  "collaborators \<Rightarrow> cint \<Rightarrow> cint \<Rightarrow> GLenum \<Rightarrow> GLsizei \<Rightarrow> world \<Rightarrow> Colorbuffer \<times> world" where
  "Colorbuffer_ctor env width height fmt samples w =
     (let this = RenderbufferStorage_ctor (Colorbuffer.fields None);
          requestedFormat = ConvertRenderbufferFormat env fmt;
          supportedSamples = getSupportedMultisampleCount env samples;
          assign = (\<lambda>this :: Colorbuffer.
            this\<lparr>mWidth := width, mHeight := height, format := fmt,
                 internalFormat := requestedFormat, mSamples := supportedSamples\<rparr>)
      in if 0 <s width \<and> 0 <s height
         then (let r = createRenderTarget env width height requestedFormat supportedSamples False
                         (images w);
                   w1 = log_call
                          (Call_createRenderTarget width height requestedFormat supportedSamples False)
                          (w\<lparr>images := snd r\<rparr>);
                   this1 = this\<lparr>mRenderTarget := fst r\<rparr>
               in if mRenderTarget this1 = None
                  then (this1, error GL_OUT_OF_MEMORY w1)
                  else (assign this1, w1))
         else (assign this, w))"

definition Colorbuffer_dtor :: "Colorbuffer \<Rightarrow> world \<Rightarrow> fault + world" where
  "Colorbuffer_dtor this w =
     (case mRenderTarget this of None \<Rightarrow> Inr w | Some a \<Rightarrow> Image_release a w)"

definition Colorbuffer_getRenderTarget :: "Colorbuffer \<Rightarrow> world \<Rightarrow> fault + (ptr \<times> world)" where
  "Colorbuffer_getRenderTarget this w =
     (case mRenderTarget this of
        None \<Rightarrow> Inr (mRenderTarget this, w)
      | Some a \<Rightarrow> andThen (Image_addRef a w) (\<lambda>w1. Inr (mRenderTarget this, w1)))"

definition Colorbuffer_createSharedImage :: "Colorbuffer \<Rightarrow> world \<Rightarrow> fault + (ptr \<times> world)" where
  "Colorbuffer_createSharedImage this w =
     (case mRenderTarget this of
        None \<Rightarrow> Inr (mRenderTarget this, w)
      | Some a \<Rightarrow>
          andThen (Image_addRef a w) (\<lambda>w1.
          andThen (Image_markShared a w1) (\<lambda>w2. Inr (mRenderTarget this, w2))))"

text \<open>\<open>isShared\<close> dereferences the pointer without a test (lines 361-364).\<close>

definition Colorbuffer_isShared :: "Colorbuffer \<Rightarrow> world \<Rightarrow> fault + bool" where
  "Colorbuffer_isShared this w =
     (case mRenderTarget this of
        None \<Rightarrow> Inl NullPointerDereference
      | Some a \<Rightarrow> Image_isShared a w)"

section \<open>DepthStencilbuffer, Depthbuffer, Stencilbuffer\<close>

definition DepthStencilbuffer_ctor_Image ::
  "collaborators \<Rightarrow> ptr \<Rightarrow> world \<Rightarrow> fault + (DepthStencilbuffer \<times> world)" where
  "DepthStencilbuffer_ctor_Image env depthStencil w =
     (let this = RenderbufferStorage_ctor (DepthStencilbuffer.fields depthStencil) in
      case depthStencil of
        None \<Rightarrow> Inr (this, w)
      | Some a \<Rightarrow>
          andThen (Image_addRef a w) (\<lambda>w1.
          andThen (Image_deref a w1) (\<lambda>img.
            Inr (this\<lparr>mWidth := imageWidth img,
                      mHeight := imageHeight img,
                      internalFormat := imageInternalFormat img,
                      format := ConvertDepthStencilFormat env (imageInternalFormat img),
                      mSamples := imageDepth img AND NOT 1\<rparr>, w1))))"

definition DepthStencilbuffer_ctor ::
  "collaborators \<Rightarrow> cint \<Rightarrow> cint \<Rightarrow> GLsizei \<Rightarrow> world \<Rightarrow> DepthStencilbuffer \<times> world" where
  "DepthStencilbuffer_ctor env width height samples w =
     (let this = RenderbufferStorage_ctor (DepthStencilbuffer.fields None);
          supportedSamples = getSupportedMultisampleCount env samples;
          assign = (\<lambda>this :: DepthStencilbuffer.
            this\<lparr>mWidth := width, mHeight := height, format := GL_DEPTH24_STENCIL8_OES,
                 internalFormat := FORMAT_D24S8, mSamples := supportedSamples\<rparr>)
      in if 0 <s width \<and> 0 <s height
         then (let r = createDepthStencilSurface env width height FORMAT_D24S8 supportedSamples False
                         (images w);
                   w1 = log_call
                          (Call_createDepthStencilSurface width height FORMAT_D24S8 supportedSamples False)
                          (w\<lparr>images := snd r\<rparr>);
                   this1 = this\<lparr>mDepthStencil := fst r\<rparr>
               in if mDepthStencil this1 = None
                  then (this1, error GL_OUT_OF_MEMORY w1)
                  else (assign this1, w1))
         else (assign this, w))"

definition DepthStencilbuffer_dtor :: "DepthStencilbuffer \<Rightarrow> world \<Rightarrow> fault + world" where
  "DepthStencilbuffer_dtor this w =
     (case mDepthStencil this of None \<Rightarrow> Inr w | Some a \<Rightarrow> Image_release a w)"

definition DepthStencilbuffer_getRenderTarget ::
  "DepthStencilbuffer \<Rightarrow> world \<Rightarrow> fault + (ptr \<times> world)" where
  "DepthStencilbuffer_getRenderTarget this w =
     (case mDepthStencil this of
        None \<Rightarrow> Inr (mDepthStencil this, w)
      | Some a \<Rightarrow> andThen (Image_addRef a w) (\<lambda>w1. Inr (mDepthStencil this, w1)))"

definition DepthStencilbuffer_createSharedImage ::
  "DepthStencilbuffer \<Rightarrow> world \<Rightarrow> fault + (ptr \<times> world)" where
  "DepthStencilbuffer_createSharedImage this w =
     (case mDepthStencil this of
        None \<Rightarrow> Inr (mDepthStencil this, w)
      | Some a \<Rightarrow>
          andThen (Image_addRef a w) (\<lambda>w1.
          andThen (Image_markShared a w1) (\<lambda>w2. Inr (mDepthStencil this, w2))))"

definition DepthStencilbuffer_isShared :: "DepthStencilbuffer \<Rightarrow> world \<Rightarrow> fault + bool" where
  "DepthStencilbuffer_isShared this w =
     (case mDepthStencil this of
        None \<Rightarrow> Inl NullPointerDereference
      | Some a \<Rightarrow> Image_isShared a w)"

text \<open>
  The constructors of \<open>Depthbuffer\<close> and \<open>Stencilbuffer\<close> run the base constructor and
  then overwrite \<open>format\<close>: in wrap mode when the argument is not null, in allocate mode
  when \<open>mDepthStencil\<close> is not null (lines 442-484).
\<close>

definition Depthbuffer_ctor_Image ::
  "collaborators \<Rightarrow> ptr \<Rightarrow> world \<Rightarrow> fault + (DepthStencilbuffer \<times> world)" where
  "Depthbuffer_ctor_Image env depthStencil w =
     andThen (DepthStencilbuffer_ctor_Image env depthStencil w) (\<lambda>r.
       Inr (if depthStencil \<noteq> None then (fst r)\<lparr>format := GL_DEPTH_COMPONENT16_OES\<rparr> else fst r,
            snd r))"

definition Depthbuffer_ctor ::
  "collaborators \<Rightarrow> cint \<Rightarrow> cint \<Rightarrow> GLsizei \<Rightarrow> world \<Rightarrow> DepthStencilbuffer \<times> world" where
  "Depthbuffer_ctor env width height samples w =
     (let r = DepthStencilbuffer_ctor env width height samples w in
      (if mDepthStencil (fst r) \<noteq> None then (fst r)\<lparr>format := GL_DEPTH_COMPONENT16_OES\<rparr> else fst r,
       snd r))"

definition Stencilbuffer_ctor_Image ::
  "collaborators \<Rightarrow> ptr \<Rightarrow> world \<Rightarrow> fault + (DepthStencilbuffer \<times> world)" where
  "Stencilbuffer_ctor_Image env depthStencil w =
     andThen (DepthStencilbuffer_ctor_Image env depthStencil w) (\<lambda>r.
       Inr (if depthStencil \<noteq> None then (fst r)\<lparr>format := GL_STENCIL_INDEX8_OES\<rparr> else fst r,
            snd r))"

definition Stencilbuffer_ctor ::
  "collaborators \<Rightarrow> cint \<Rightarrow> cint \<Rightarrow> GLsizei \<Rightarrow> world \<Rightarrow> DepthStencilbuffer \<times> world" where
  "Stencilbuffer_ctor env width height samples w =
     (let r = DepthStencilbuffer_ctor env width height samples w in
      (if mDepthStencil (fst r) \<noteq> None then (fst r)\<lparr>format := GL_STENCIL_INDEX8_OES\<rparr> else fst r,
       snd r))"

section \<open>Virtual calls through a RenderbufferInterface pointer\<close>

text \<open>
  A call through \<open>mInstance\<close> runs the override of the object's class; the storage classes
  inherit the hooks of \<open>RenderbufferInterface\<close> and the five field queries of
  \<open>RenderbufferStorage\<close>.
\<close>

fun virtual_addProxyRef :: "RenderbufferInterface \<Rightarrow> addr \<Rightarrow> world \<Rightarrow> fault + world" where
  "virtual_addProxyRef (Instance_RenderbufferTexture2D r) proxy w =
     RenderbufferTexture2D_addProxyRef r proxy w"
| "virtual_addProxyRef (Instance_Colorbuffer c) proxy w = RenderbufferInterface_addProxyRef proxy w"
| "virtual_addProxyRef (Instance_DepthStencilbuffer d) proxy w =
     RenderbufferInterface_addProxyRef proxy w"

fun virtual_releaseProxy :: "RenderbufferInterface \<Rightarrow> addr \<Rightarrow> world \<Rightarrow> fault + world" where
  "virtual_releaseProxy (Instance_RenderbufferTexture2D r) proxy w =
     RenderbufferTexture2D_releaseProxy r proxy w"
| "virtual_releaseProxy (Instance_Colorbuffer c) proxy w =
     RenderbufferInterface_releaseProxy proxy w"
| "virtual_releaseProxy (Instance_DepthStencilbuffer d) proxy w =
     RenderbufferInterface_releaseProxy proxy w"

fun virtual_getRenderTarget :: "RenderbufferInterface \<Rightarrow> world \<Rightarrow> fault + (ptr \<times> world)" where
  "virtual_getRenderTarget (Instance_RenderbufferTexture2D r) w =
     RenderbufferTexture2D_getRenderTarget r w"
| "virtual_getRenderTarget (Instance_Colorbuffer c) w = Colorbuffer_getRenderTarget c w"
| "virtual_getRenderTarget (Instance_DepthStencilbuffer d) w =
     DepthStencilbuffer_getRenderTarget d w"

fun virtual_createSharedImage :: "RenderbufferInterface \<Rightarrow> world \<Rightarrow> fault + (ptr \<times> world)" where
  "virtual_createSharedImage (Instance_RenderbufferTexture2D r) w =
     RenderbufferTexture2D_createSharedImage r w"
| "virtual_createSharedImage (Instance_Colorbuffer c) w = Colorbuffer_createSharedImage c w"
| "virtual_createSharedImage (Instance_DepthStencilbuffer d) w =
     DepthStencilbuffer_createSharedImage d w"

fun virtual_isShared :: "RenderbufferInterface \<Rightarrow> world \<Rightarrow> fault + bool" where
  "virtual_isShared (Instance_RenderbufferTexture2D r) w = RenderbufferTexture2D_isShared r w"
| "virtual_isShared (Instance_Colorbuffer c) w = Colorbuffer_isShared c w"
| "virtual_isShared (Instance_DepthStencilbuffer d) w = DepthStencilbuffer_isShared d w"

fun virtual_getWidth :: "RenderbufferInterface \<Rightarrow> world \<Rightarrow> fault + GLsizei" where
  "virtual_getWidth (Instance_RenderbufferTexture2D r) w = RenderbufferTexture2D_getWidth r w"
| "virtual_getWidth (Instance_Colorbuffer c) w = Inr (RenderbufferStorage_getWidth c)"
| "virtual_getWidth (Instance_DepthStencilbuffer d) w = Inr (RenderbufferStorage_getWidth d)"

fun virtual_getHeight :: "RenderbufferInterface \<Rightarrow> world \<Rightarrow> fault + GLsizei" where
  "virtual_getHeight (Instance_RenderbufferTexture2D r) w = RenderbufferTexture2D_getHeight r w"
| "virtual_getHeight (Instance_Colorbuffer c) w = Inr (RenderbufferStorage_getHeight c)"
| "virtual_getHeight (Instance_DepthStencilbuffer d) w = Inr (RenderbufferStorage_getHeight d)"

fun virtual_getFormat :: "RenderbufferInterface \<Rightarrow> world \<Rightarrow> fault + GLenum" where
  "virtual_getFormat (Instance_RenderbufferTexture2D r) w = RenderbufferTexture2D_getFormat r w"
| "virtual_getFormat (Instance_Colorbuffer c) w = Inr (RenderbufferStorage_getFormat c)"
| "virtual_getFormat (Instance_DepthStencilbuffer d) w = Inr (RenderbufferStorage_getFormat d)"

fun virtual_getInternalFormat :: "RenderbufferInterface \<Rightarrow> world \<Rightarrow> fault + Format" where
  "virtual_getInternalFormat (Instance_RenderbufferTexture2D r) w =
     RenderbufferTexture2D_getInternalFormat r w"
| "virtual_getInternalFormat (Instance_Colorbuffer c) w =
     Inr (RenderbufferStorage_getInternalFormat c)"
| "virtual_getInternalFormat (Instance_DepthStencilbuffer d) w =
     Inr (RenderbufferStorage_getInternalFormat d)"

fun virtual_getSamples :: "RenderbufferInterface \<Rightarrow> world \<Rightarrow> fault + GLsizei" where
  "virtual_getSamples (Instance_RenderbufferTexture2D r) w = Inr (RenderbufferTexture2D_getSamples r)"
| "virtual_getSamples (Instance_Colorbuffer c) w = Inr (RenderbufferStorage_getSamples c)"
| "virtual_getSamples (Instance_DepthStencilbuffer d) w = Inr (RenderbufferStorage_getSamples d)"

fun virtual_dtor :: "RenderbufferInterface \<Rightarrow> world \<Rightarrow> fault + world" where
  "virtual_dtor (Instance_RenderbufferTexture2D r) w = RenderbufferTexture2D_dtor r w"
| "virtual_dtor (Instance_Colorbuffer c) w = Colorbuffer_dtor c w"
| "virtual_dtor (Instance_DepthStencilbuffer d) w = DepthStencilbuffer_dtor d w"

text \<open>
  The bit sizes of \<open>RenderbufferInterface\<close> (lines 42-70) apply the function of \<open>sw2es\<close>
  to the virtual \<open>getInternalFormat()\<close>.
\<close>

definition RenderbufferInterface_getSize ::
  "(Format \<Rightarrow> GLuint) \<Rightarrow> RenderbufferInterface \<Rightarrow> world \<Rightarrow> fault + GLuint" where
  "RenderbufferInterface_getSize size_of this w =
     andThen (virtual_getInternalFormat this w) (\<lambda>f. Inr (size_of f))"

definition RenderbufferInterface_getRedSize ::
  "collaborators \<Rightarrow> RenderbufferInterface \<Rightarrow> world \<Rightarrow> fault + GLuint" where
  "RenderbufferInterface_getRedSize env = RenderbufferInterface_getSize (GetRedSize env)"

definition RenderbufferInterface_getGreenSize ::
  "collaborators \<Rightarrow> RenderbufferInterface \<Rightarrow> world \<Rightarrow> fault + GLuint" where
  "RenderbufferInterface_getGreenSize env = RenderbufferInterface_getSize (GetGreenSize env)"

definition RenderbufferInterface_getBlueSize ::
  "collaborators \<Rightarrow> RenderbufferInterface \<Rightarrow> world \<Rightarrow> fault + GLuint" where
  "RenderbufferInterface_getBlueSize env = RenderbufferInterface_getSize (GetBlueSize env)"

definition RenderbufferInterface_getAlphaSize ::
  "collaborators \<Rightarrow> RenderbufferInterface \<Rightarrow> world \<Rightarrow> fault + GLuint" where
  "RenderbufferInterface_getAlphaSize env = RenderbufferInterface_getSize (GetAlphaSize env)"

definition RenderbufferInterface_getDepthSize ::
  "collaborators \<Rightarrow> RenderbufferInterface \<Rightarrow> world \<Rightarrow> fault + GLuint" where
  "RenderbufferInterface_getDepthSize env = RenderbufferInterface_getSize (GetDepthSize env)"

definition RenderbufferInterface_getStencilSize ::
  "collaborators \<Rightarrow> RenderbufferInterface \<Rightarrow> world \<Rightarrow> fault + GLuint" where
  "RenderbufferInterface_getStencilSize env = RenderbufferInterface_getSize (GetStencilSize env)"

text \<open>
  \<open>delete p\<close>: nothing for a null pointer; otherwise the destructor of the object's class
  runs and the object leaves the heap.
\<close>

definition delete_instance :: "ptr \<Rightarrow> world \<Rightarrow> fault + world" where
  "delete_instance p w =
     (case p of
        None \<Rightarrow> Inr w
      | Some a \<Rightarrow>
          (case instances w a of
             None \<Rightarrow> Inl UseAfterFree
           | Some inst \<Rightarrow>
               andThen (virtual_dtor inst w) (\<lambda>w1.
                 Inr (w1\<lparr>instances := (instances w1)(a := None)\<rparr>))))"

section \<open>Renderbuffer\<close>

text \<open>
  The member functions take \<open>this\<close>, the address of the Renderbuffer. \<open>current_instance\<close>
  is the object that \<open>this->mInstance\<close> points to.
\<close>

definition Renderbuffer_deref :: "addr \<Rightarrow> world \<Rightarrow> fault + Renderbuffer" where
  "Renderbuffer_deref this w =
     (case renderbuffers w this of None \<Rightarrow> Inl UseAfterFree | Some rb \<Rightarrow> Inr rb)"

definition instance_deref :: "ptr \<Rightarrow> world \<Rightarrow> fault + RenderbufferInterface" where
  "instance_deref p w =
     (case p of
        None \<Rightarrow> Inl NullPointerDereference
      | Some a \<Rightarrow> (case instances w a of None \<Rightarrow> Inl UseAfterFree | Some inst \<Rightarrow> Inr inst))"

definition current_instance :: "addr \<Rightarrow> world \<Rightarrow> fault + RenderbufferInterface" where
  "current_instance this w =
     andThen (Renderbuffer_deref this w) (\<lambda>rb. instance_deref (mInstance rb) w)"

text \<open>
  The constructor (lines 142-146) asserts that the instance is not null and stores it. The
  base classes, outside this file, keep the name and start the reference count at zero.
\<close>

definition Renderbuffer_ctor :: "GLuint \<Rightarrow> ptr \<Rightarrow> fault + Renderbuffer" where
  "Renderbuffer_ctor nm instance =
     (if instance = None then Inl AssertionFailure
      else Inr \<lparr>name = nm, referenceCount = 0, mInstance = instance\<rparr>)"

text \<open>The destructor (lines 148-151) deletes the instance.\<close>

definition Renderbuffer_dtor :: "Renderbuffer \<Rightarrow> world \<Rightarrow> fault + world" where
  "Renderbuffer_dtor rb w = delete_instance (mInstance rb) w"

text \<open>
  Modelled from the spec: \<open>Object::addRef\<close> is outside this file; it counts one more
  reference to the object.
\<close>

definition Object_addRef :: "addr \<Rightarrow> world \<Rightarrow> fault + world" where
  "Object_addRef this w =
     andThen (Renderbuffer_deref this w) (\<lambda>rb.
       Inr (log_call (Call_Object_addRef this)
         (w\<lparr>renderbuffers := (renderbuffers w)(this \<mapsto> rb\<lparr>referenceCount := referenceCount rb + 1\<rparr>)\<rparr>)))"

text \<open>
  Modelled from the spec: \<open>Object::release\<close> is outside this file; it counts one
  reference less and destroys the object with its last reference, which for a Renderbuffer
  runs the destructor above.
\<close>

definition Object_release :: "addr \<Rightarrow> world \<Rightarrow> fault + world" where
  "Object_release this w =
     andThen (Renderbuffer_deref this w) (\<lambda>rb.
       (let w1 = log_call (Call_Object_release this) w in
        if referenceCount rb \<le> 1
        then andThen (Renderbuffer_dtor rb w1) (\<lambda>w2.
               Inr (w2\<lparr>renderbuffers := (renderbuffers w2)(this := None)\<rparr>))
        else Inr (w1\<lparr>renderbuffers :=
                    (renderbuffers w1)(this \<mapsto> rb\<lparr>referenceCount := referenceCount rb - 1\<rparr>)\<rparr>)))"

text \<open>Lines 155-167: the hook of the current instance first, then the base class.\<close>

definition Renderbuffer_addRef :: "addr \<Rightarrow> world \<Rightarrow> fault + world" where
  "Renderbuffer_addRef this w =
     andThen (current_instance this w) (\<lambda>inst.
     andThen (virtual_addProxyRef inst this w) (\<lambda>w1.
       Object_addRef this w1))"

definition Renderbuffer_release :: "addr \<Rightarrow> world \<Rightarrow> fault + world" where
  "Renderbuffer_release this w =
     andThen (current_instance this w) (\<lambda>inst.
     andThen (virtual_releaseProxy inst this w) (\<lambda>w1.
       Object_release this w1))"

text \<open>Lines 169-241: every query is forwarded to the current instance.\<close>

definition Renderbuffer_getRenderTarget :: "addr \<Rightarrow> world \<Rightarrow> fault + (ptr \<times> world)" where
  "Renderbuffer_getRenderTarget this w =
     andThen (current_instance this w) (\<lambda>inst. virtual_getRenderTarget inst w)"

definition Renderbuffer_createSharedImage :: "addr \<Rightarrow> world \<Rightarrow> fault + (ptr \<times> world)" where
  "Renderbuffer_createSharedImage this w =
     andThen (current_instance this w) (\<lambda>inst. virtual_createSharedImage inst w)"

definition Renderbuffer_isShared :: "addr \<Rightarrow> world \<Rightarrow> fault + bool" where
  "Renderbuffer_isShared this w =
     andThen (current_instance this w) (\<lambda>inst. virtual_isShared inst w)"

definition Renderbuffer_getWidth :: "addr \<Rightarrow> world \<Rightarrow> fault + GLsizei" where
  "Renderbuffer_getWidth this w =
     andThen (current_instance this w) (\<lambda>inst. virtual_getWidth inst w)"

definition Renderbuffer_getHeight :: "addr \<Rightarrow> world \<Rightarrow> fault + GLsizei" where
  "Renderbuffer_getHeight this w =
     andThen (current_instance this w) (\<lambda>inst. virtual_getHeight inst w)"

definition Renderbuffer_getFormat :: "addr \<Rightarrow> world \<Rightarrow> fault + GLenum" where
  "Renderbuffer_getFormat this w =
     andThen (current_instance this w) (\<lambda>inst. virtual_getFormat inst w)"

definition Renderbuffer_getInternalFormat :: "addr \<Rightarrow> world \<Rightarrow> fault + Format" where
  "Renderbuffer_getInternalFormat this w =
     andThen (current_instance this w) (\<lambda>inst. virtual_getInternalFormat inst w)"

definition Renderbuffer_getRedSize :: "collaborators \<Rightarrow> addr \<Rightarrow> world \<Rightarrow> fault + GLuint" where
  "Renderbuffer_getRedSize env this w =
     andThen (current_instance this w) (\<lambda>inst. RenderbufferInterface_getRedSize env inst w)"

definition Renderbuffer_getGreenSize :: "collaborators \<Rightarrow> addr \<Rightarrow> world \<Rightarrow> fault + GLuint" where
  "Renderbuffer_getGreenSize env this w =
     andThen (current_instance this w) (\<lambda>inst. RenderbufferInterface_getGreenSize env inst w)"

definition Renderbuffer_getBlueSize :: "collaborators \<Rightarrow> addr \<Rightarrow> world \<Rightarrow> fault + GLuint" where
  "Renderbuffer_getBlueSize env this w =
     andThen (current_instance this w) (\<lambda>inst. RenderbufferInterface_getBlueSize env inst w)"

definition Renderbuffer_getAlphaSize :: "collaborators \<Rightarrow> addr \<Rightarrow> world \<Rightarrow> fault + GLuint" where
  "Renderbuffer_getAlphaSize env this w =
     andThen (current_instance this w) (\<lambda>inst. RenderbufferInterface_getAlphaSize env inst w)"

definition Renderbuffer_getDepthSize :: "collaborators \<Rightarrow> addr \<Rightarrow> world \<Rightarrow> fault + GLuint" where
  "Renderbuffer_getDepthSize env this w =
     andThen (current_instance this w) (\<lambda>inst. RenderbufferInterface_getDepthSize env inst w)"

definition Renderbuffer_getStencilSize :: "collaborators \<Rightarrow> addr \<Rightarrow> world \<Rightarrow> fault + GLuint" where
  "Renderbuffer_getStencilSize env this w =
     andThen (current_instance this w) (\<lambda>inst. RenderbufferInterface_getStencilSize env inst w)"

definition Renderbuffer_getSamples :: "addr \<Rightarrow> world \<Rightarrow> fault + GLsizei" where
  "Renderbuffer_getSamples this w =
     andThen (current_instance this w) (\<lambda>inst. virtual_getSamples inst w)"

text \<open>Lines 243-249: the assertion, the delete, the assignment.\<close>

definition Renderbuffer_setStorage :: "addr \<Rightarrow> ptr \<Rightarrow> world \<Rightarrow> fault + world" where
  "Renderbuffer_setStorage this newStorage w =
     andThen (Renderbuffer_deref this w) (\<lambda>rb.
       if newStorage = None then Inl AssertionFailure
       else andThen (delete_instance (mInstance rb) w) (\<lambda>w1.
              Inr (w1\<lparr>renderbuffers := (renderbuffers w1)(this \<mapsto> rb\<lparr>mInstance := newStorage\<rparr>)\<rparr>)))"

text \<open>
  The Image pointer that an instance holds and that its destructor releases (lines 328-334
  and 404-410); a texture proxy holds none.
\<close>

fun backing_of :: "RenderbufferInterface \<Rightarrow> ptr" where
  "backing_of (Instance_RenderbufferTexture2D r) = None"
| "backing_of (Instance_Colorbuffer c) = mRenderTarget c"
| "backing_of (Instance_DepthStencilbuffer d) = mDepthStencil d"

section \<open>Example worlds\<close>

definition example_image :: Image where
  "example_image =
     \<lparr>imageReferenceCount = 1, imageShared = False, imageWidth = 64, imageHeight = 32,
      imageDepth = 5, imageInternalFormat = FORMAT_D24S8\<rparr>"

definition new_image :: "cint \<Rightarrow> cint \<Rightarrow> Format \<Rightarrow> cint \<Rightarrow> Image" where
  "new_image wd h f s =
     \<lparr>imageReferenceCount = 1, imageShared = False, imageWidth = wd, imageHeight = h,
      imageDepth = s, imageInternalFormat = f\<rparr>"

definition example_env :: "bool \<Rightarrow> collaborators" where
  "example_env ok =
     \<lparr>ConvertRenderbufferFormat = (\<lambda>f. if f = GL_RGBA4_OES then FORMAT_A8B8G8R8 else FORMAT_enumerator (unat f)),
      ConvertBackBufferFormat = (\<lambda>f. if f = FORMAT_A8B8G8R8 then GL_RGBA4_OES else 0),
      ConvertDepthStencilFormat = (\<lambda>f. if f = FORMAT_D24S8 then GL_DEPTH24_STENCIL8_OES else 0),
      GetRedSize = (\<lambda>f. if f = FORMAT_A8B8G8R8 then 8 else 0),
      GetGreenSize = (\<lambda>f. if f = FORMAT_A8B8G8R8 then 8 else 0),
      GetBlueSize = (\<lambda>f. if f = FORMAT_A8B8G8R8 then 8 else 0),
      GetAlphaSize = (\<lambda>f. if f = FORMAT_A8B8G8R8 then 8 else 0),
      GetDepthSize = (\<lambda>f. if f = FORMAT_D24S8 then 24 else 0),
      GetStencilSize = (\<lambda>f. if f = FORMAT_D24S8 then 8 else 0),
      getSupportedMultisampleCount = (\<lambda>s. if 4 \<le>s s then 4 else if 2 \<le>s s then 2 else 0),
      createRenderTarget = (\<lambda>wd h f s lockable imgs.
        if ok then (Some 7, imgs(7 \<mapsto> new_image wd h f s)) else (None, imgs)),
      createDepthStencilSurface = (\<lambda>wd h f s lockable imgs.
        if ok then (Some 8, imgs(8 \<mapsto> new_image wd h f s)) else (None, imgs))\<rparr>"

definition example_world :: world where
  "example_world =
     \<lparr>images = [1 \<mapsto> example_image], textures = Map.empty, instances = Map.empty,
      renderbuffers = Map.empty, calls = []\<rparr>"

definition example_Colorbuffer :: "ptr \<Rightarrow> Colorbuffer" where
  "example_Colorbuffer p =
     \<lparr>mWidth = 64, mHeight = 32, format = GL_RGBA4_OES, internalFormat = FORMAT_A8B8G8R8,
      mSamples = 4, mRenderTarget = p\<rparr>"

definition example_DepthStencilbuffer :: "ptr \<Rightarrow> DepthStencilbuffer" where
  "example_DepthStencilbuffer p =
     \<lparr>mWidth = 64, mHeight = 32, format = GL_DEPTH24_STENCIL8_OES, internalFormat = FORMAT_D24S8,
      mSamples = 4, mDepthStencil = p\<rparr>"

text \<open>A second colour format for the examples, with its value in the Khronos headers.\<close>

definition GL_RGB565_OES :: GLenum where "GL_RGB565_OES = 0x8D62"

text \<open>A world whose only Image is a colour image.\<close>

definition example_color_image :: Image where
  "example_color_image =
     \<lparr>imageReferenceCount = 1, imageShared = False, imageWidth = 64, imageHeight = 32,
      imageDepth = 1, imageInternalFormat = FORMAT_A8B8G8R8\<rparr>"

definition example_color_world :: world where
  "example_color_world =
     \<lparr>images = [1 \<mapsto> example_color_image], textures = Map.empty, instances = Map.empty,
      renderbuffers = Map.empty, calls = []\<rparr>"

text \<open>
  A scene: a texture (2) over the Image (1), a texture proxy (3), a Colorbuffer (4) that
  owns a reference to the Image, a DepthStencilbuffer (5) without a backing, a Renderbuffer
  (10) on the proxy and a Renderbuffer (11) on the Colorbuffer.
\<close>

definition example_texture :: Texture2D where
  "example_texture =
     \<lparr>textureImage = (\<lambda>target level. if target = GL_TEXTURE_2D \<and> level = 0 then Some 1 else None),
      textureIsShared = (\<lambda>target level. False),
      textureWidth = (\<lambda>target level. 64),
      textureHeight = (\<lambda>target level. 32),
      textureFormat = (\<lambda>target level. GL_RGBA4_OES),
      textureInternalFormat = (\<lambda>target level. FORMAT_A8B8G8R8),
      textureProxyRefs = 1\<rparr>"

definition example_proxy_Renderbuffer :: Renderbuffer where
  "example_proxy_Renderbuffer = \<lparr>name = 1, referenceCount = 1, mInstance = Some 3\<rparr>"

definition example_color_Renderbuffer :: Renderbuffer where
  "example_color_Renderbuffer = \<lparr>name = 2, referenceCount = 2, mInstance = Some 4\<rparr>"

definition example_scene :: world where
  "example_scene =
     \<lparr>images = [1 \<mapsto> example_color_image\<lparr>imageReferenceCount := 2\<rparr>],
      textures = [2 \<mapsto> example_texture],
      instances = [3 \<mapsto> Instance_RenderbufferTexture2D \<lparr>mTexture2D = Some 2\<rparr>,
                   4 \<mapsto> Instance_Colorbuffer (example_Colorbuffer (Some 1)),
                   5 \<mapsto> Instance_DepthStencilbuffer (example_DepthStencilbuffer None)],
      renderbuffers = [10 \<mapsto> example_proxy_Renderbuffer, 11 \<mapsto> example_color_Renderbuffer],
      calls = []\<rparr>"

section \<open>Helper lemmas\<close>

lemma andThen_Inr [simp]: "andThen (Inr x) f = f x"
  by (simp add: andThen_def)

lemma andThen_Inl [simp]: "andThen (Inl e) f = Inl e"
  by (simp add: andThen_def)

lemma Image_addRef_live:
  "images w a = Some img \<Longrightarrow>
   Image_addRef a w =
     Inr (w\<lparr>images := (images w)(a \<mapsto> img\<lparr>imageReferenceCount := imageReferenceCount img + 1\<rparr>),
            calls := calls w @ [Call_Image_addRef a]\<rparr>)"
  by (simp add: Image_addRef_def log_call_def)

lemma Image_markShared_live:
  "images w a = Some img \<Longrightarrow>
   Image_markShared a w =
     Inr (w\<lparr>images := (images w)(a \<mapsto> img\<lparr>imageShared := True\<rparr>),
            calls := calls w @ [Call_Image_markShared a]\<rparr>)"
  by (simp add: Image_markShared_def log_call_def)

lemma Image_isShared_live: "images w a = Some img \<Longrightarrow> Image_isShared a w = Inr (imageShared img)"
  by (simp add: Image_isShared_def Image_deref_def)

lemma Image_deref_live: "images w a = Some img \<Longrightarrow> Image_deref a w = Inr img"
  by (simp add: Image_deref_def)

lemma Colorbuffer_getRenderTarget_live:
  "mRenderTarget cb = Some a \<Longrightarrow> images w a = Some img \<Longrightarrow>
   Colorbuffer_getRenderTarget cb w =
     Inr (Some a,
          w\<lparr>images := (images w)(a \<mapsto> img\<lparr>imageReferenceCount := imageReferenceCount img + 1\<rparr>),
            calls := calls w @ [Call_Image_addRef a]\<rparr>)"
  by (simp add: Colorbuffer_getRenderTarget_def Image_addRef_live)

lemma Colorbuffer_createSharedImage_live:
  "mRenderTarget cb = Some a \<Longrightarrow> images w a = Some img \<Longrightarrow>
   Colorbuffer_createSharedImage cb w =
     Inr (Some a,
          w\<lparr>images := (images w)(a \<mapsto> img\<lparr>imageReferenceCount := imageReferenceCount img + 1,
                                             imageShared := True\<rparr>),
            calls := calls w @ [Call_Image_addRef a, Call_Image_markShared a]\<rparr>)"
  by (simp add: Colorbuffer_createSharedImage_def Image_addRef_live Image_markShared_live)

lemma DepthStencilbuffer_getRenderTarget_live:
  "mDepthStencil ds = Some a \<Longrightarrow> images w a = Some img \<Longrightarrow>
   DepthStencilbuffer_getRenderTarget ds w =
     Inr (Some a,
          w\<lparr>images := (images w)(a \<mapsto> img\<lparr>imageReferenceCount := imageReferenceCount img + 1\<rparr>),
            calls := calls w @ [Call_Image_addRef a]\<rparr>)"
  by (simp add: DepthStencilbuffer_getRenderTarget_def Image_addRef_live)

lemma DepthStencilbuffer_createSharedImage_live:
  "mDepthStencil ds = Some a \<Longrightarrow> images w a = Some img \<Longrightarrow>
   DepthStencilbuffer_createSharedImage ds w =
     Inr (Some a,
          w\<lparr>images := (images w)(a \<mapsto> img\<lparr>imageReferenceCount := imageReferenceCount img + 1,
                                             imageShared := True\<rparr>),
            calls := calls w @ [Call_Image_addRef a, Call_Image_markShared a]\<rparr>)"
  by (simp add: DepthStencilbuffer_createSharedImage_def Image_addRef_live Image_markShared_live)

lemma Colorbuffer_isShared_live:
  "mRenderTarget cb = Some a \<Longrightarrow> images w a = Some img \<Longrightarrow>
   Colorbuffer_isShared cb w = Inr (imageShared img)"
  by (simp add: Colorbuffer_isShared_def Image_isShared_live)

lemma DepthStencilbuffer_isShared_live:
  "mDepthStencil ds = Some a \<Longrightarrow> images w a = Some img \<Longrightarrow>
   DepthStencilbuffer_isShared ds w = Inr (imageShared img)"
  by (simp add: DepthStencilbuffer_isShared_def Image_isShared_live)

lemma Colorbuffer_ctor_failed:
  "0 <s width \<Longrightarrow> 0 <s height \<Longrightarrow>
   createRenderTarget env width height (ConvertRenderbufferFormat env fmt)
     (getSupportedMultisampleCount env samples) False (images w) = (None, imgs) \<Longrightarrow>
   Colorbuffer_ctor env width height fmt samples w =
     (\<lparr>mWidth = 0, mHeight = 0, format = GL_RGBA4_OES, internalFormat = FORMAT_A8B8G8R8,
       mSamples = 0, mRenderTarget = None\<rparr>,
      w\<lparr>images := imgs,
        calls := calls w @
          [Call_createRenderTarget width height (ConvertRenderbufferFormat env fmt)
             (getSupportedMultisampleCount env samples) False,
           Call_error GL_OUT_OF_MEMORY]\<rparr>)"
  by (simp add: Colorbuffer_ctor_def Let_def RenderbufferStorage_ctor_def Colorbuffer.defs
      log_call_def error_def)

lemma Colorbuffer_ctor_allocated:
  "0 <s width \<Longrightarrow> 0 <s height \<Longrightarrow>
   createRenderTarget env width height (ConvertRenderbufferFormat env fmt)
     (getSupportedMultisampleCount env samples) False (images w) = (Some a, imgs) \<Longrightarrow>
   Colorbuffer_ctor env width height fmt samples w =
     (\<lparr>mWidth = width, mHeight = height, format = fmt,
       internalFormat = ConvertRenderbufferFormat env fmt,
       mSamples = getSupportedMultisampleCount env samples, mRenderTarget = Some a\<rparr>,
      w\<lparr>images := imgs,
        calls := calls w @
          [Call_createRenderTarget width height (ConvertRenderbufferFormat env fmt)
             (getSupportedMultisampleCount env samples) False]\<rparr>)"
  by (simp add: Colorbuffer_ctor_def Let_def RenderbufferStorage_ctor_def Colorbuffer.defs
      log_call_def)

lemma Colorbuffer_ctor_no_area:
  "\<not> (0 <s width \<and> 0 <s height) \<Longrightarrow>
   Colorbuffer_ctor env width height fmt samples w =
     (\<lparr>mWidth = width, mHeight = height, format = fmt,
       internalFormat = ConvertRenderbufferFormat env fmt,
       mSamples = getSupportedMultisampleCount env samples, mRenderTarget = None\<rparr>, w)"
  by (auto simp add: Colorbuffer_ctor_def Let_def RenderbufferStorage_ctor_def Colorbuffer.defs)

lemma DepthStencilbuffer_ctor_failed:
  "0 <s width \<Longrightarrow> 0 <s height \<Longrightarrow>
   createDepthStencilSurface env width height FORMAT_D24S8
     (getSupportedMultisampleCount env samples) False (images w) = (None, imgs) \<Longrightarrow>
   DepthStencilbuffer_ctor env width height samples w =
     (\<lparr>mWidth = 0, mHeight = 0, format = GL_RGBA4_OES, internalFormat = FORMAT_A8B8G8R8,
       mSamples = 0, mDepthStencil = None\<rparr>,
      w\<lparr>images := imgs,
        calls := calls w @
          [Call_createDepthStencilSurface width height FORMAT_D24S8
             (getSupportedMultisampleCount env samples) False,
           Call_error GL_OUT_OF_MEMORY]\<rparr>)"
  by (simp add: DepthStencilbuffer_ctor_def Let_def RenderbufferStorage_ctor_def
      DepthStencilbuffer.defs log_call_def error_def)

lemma DepthStencilbuffer_ctor_allocated:
  "0 <s width \<Longrightarrow> 0 <s height \<Longrightarrow>
   createDepthStencilSurface env width height FORMAT_D24S8
     (getSupportedMultisampleCount env samples) False (images w) = (Some a, imgs) \<Longrightarrow>
   DepthStencilbuffer_ctor env width height samples w =
     (\<lparr>mWidth = width, mHeight = height, format = GL_DEPTH24_STENCIL8_OES,
       internalFormat = FORMAT_D24S8,
       mSamples = getSupportedMultisampleCount env samples, mDepthStencil = Some a\<rparr>,
      w\<lparr>images := imgs,
        calls := calls w @
          [Call_createDepthStencilSurface width height FORMAT_D24S8
             (getSupportedMultisampleCount env samples) False]\<rparr>)"
  by (simp add: DepthStencilbuffer_ctor_def Let_def RenderbufferStorage_ctor_def
      DepthStencilbuffer.defs log_call_def)

lemma DepthStencilbuffer_ctor_no_area:
  "\<not> (0 <s width \<and> 0 <s height) \<Longrightarrow>
   DepthStencilbuffer_ctor env width height samples w =
     (\<lparr>mWidth = width, mHeight = height, format = GL_DEPTH24_STENCIL8_OES,
       internalFormat = FORMAT_D24S8,
       mSamples = getSupportedMultisampleCount env samples, mDepthStencil = None\<rparr>, w)"
  by (auto simp add: DepthStencilbuffer_ctor_def Let_def RenderbufferStorage_ctor_def
      DepthStencilbuffer.defs)

lemma Depthbuffer_ctor_allocated:
  "0 <s width \<Longrightarrow> 0 <s height \<Longrightarrow>
   createDepthStencilSurface env width height FORMAT_D24S8
     (getSupportedMultisampleCount env samples) False (images w) = (Some a, imgs) \<Longrightarrow>
   Depthbuffer_ctor env width height samples w =
     (\<lparr>mWidth = width, mHeight = height, format = GL_DEPTH_COMPONENT16_OES,
       internalFormat = FORMAT_D24S8,
       mSamples = getSupportedMultisampleCount env samples, mDepthStencil = Some a\<rparr>,
      w\<lparr>images := imgs,
        calls := calls w @
          [Call_createDepthStencilSurface width height FORMAT_D24S8
             (getSupportedMultisampleCount env samples) False]\<rparr>)"
  by (simp add: Depthbuffer_ctor_def Let_def DepthStencilbuffer_ctor_allocated)

lemma Stencilbuffer_ctor_allocated:
  "0 <s width \<Longrightarrow> 0 <s height \<Longrightarrow>
   createDepthStencilSurface env width height FORMAT_D24S8
     (getSupportedMultisampleCount env samples) False (images w) = (Some a, imgs) \<Longrightarrow>
   Stencilbuffer_ctor env width height samples w =
     (\<lparr>mWidth = width, mHeight = height, format = GL_STENCIL_INDEX8_OES,
       internalFormat = FORMAT_D24S8,
       mSamples = getSupportedMultisampleCount env samples, mDepthStencil = Some a\<rparr>,
      w\<lparr>images := imgs,
        calls := calls w @
          [Call_createDepthStencilSurface width height FORMAT_D24S8
             (getSupportedMultisampleCount env samples) False]\<rparr>)"
  by (simp add: Stencilbuffer_ctor_def Let_def DepthStencilbuffer_ctor_allocated)

lemma Colorbuffer_ctor_Image_live:
  "images w a = Some img \<Longrightarrow>
   Colorbuffer_ctor_Image env (Some a) w =
     Inr (\<lparr>mWidth = imageWidth img, mHeight = imageHeight img,
           format = ConvertBackBufferFormat env (imageInternalFormat img),
           internalFormat = imageInternalFormat img,
           mSamples = imageDepth img AND NOT 1, mRenderTarget = Some a\<rparr>,
          w\<lparr>images := (images w)(a \<mapsto> img\<lparr>imageReferenceCount := imageReferenceCount img + 1\<rparr>),
            calls := calls w @ [Call_Image_addRef a]\<rparr>)"
  by (simp add: Colorbuffer_ctor_Image_def Let_def RenderbufferStorage_ctor_def Colorbuffer.defs
      Image_addRef_live Image_deref_def)

lemma DepthStencilbuffer_ctor_Image_live:
  "images w a = Some img \<Longrightarrow>
   DepthStencilbuffer_ctor_Image env (Some a) w =
     Inr (\<lparr>mWidth = imageWidth img, mHeight = imageHeight img,
           format = ConvertDepthStencilFormat env (imageInternalFormat img),
           internalFormat = imageInternalFormat img,
           mSamples = imageDepth img AND NOT 1, mDepthStencil = Some a\<rparr>,
          w\<lparr>images := (images w)(a \<mapsto> img\<lparr>imageReferenceCount := imageReferenceCount img + 1\<rparr>),
            calls := calls w @ [Call_Image_addRef a]\<rparr>)"
  by (simp add: DepthStencilbuffer_ctor_Image_def Let_def RenderbufferStorage_ctor_def
      DepthStencilbuffer.defs Image_addRef_live Image_deref_def)

lemma DepthStencilbuffer_ctor_Image_null:
  "DepthStencilbuffer_ctor_Image env None w =
     Inr (\<lparr>mWidth = 0, mHeight = 0, format = GL_RGBA4_OES, internalFormat = FORMAT_A8B8G8R8,
           mSamples = 0, mDepthStencil = None\<rparr>, w)"
  by (simp add: DepthStencilbuffer_ctor_Image_def Let_def RenderbufferStorage_ctor_def
      DepthStencilbuffer.defs)

lemma example_signed:
  "(0::32 word) <s 64" "(0::32 word) <s 32" "\<not> (0::32 word) <s 0" "\<not> (0::32 word) <s - 3"
  "(4::32 word) \<le>s 8" "\<not> (4::32 word) \<le>s 0" "\<not> (2::32 word) \<le>s 0"
  by (simp_all add: word_sless_alt word_sle_eq)

section \<open>Null backing\<close>

text \<open>
  C10. A Colorbuffer or DepthStencilbuffer whose Image pointer is null answers
  \<open>getRenderTarget()\<close> and \<open>createSharedImage()\<close> with null and leaves the world as it
  was: no reference count moves, no Image is marked shared, nothing reaches the error sink.
\<close>

theorem null_backing_gives_null:
  "(mRenderTarget cb = None \<longrightarrow>
      Colorbuffer_getRenderTarget cb w = Inr (None, w) \<and>
      Colorbuffer_createSharedImage cb w = Inr (None, w)) \<and>
   (mDepthStencil ds = None \<longrightarrow>
      DepthStencilbuffer_getRenderTarget ds w = Inr (None, w) \<and>
      DepthStencilbuffer_createSharedImage ds w = Inr (None, w))"
  by (simp add: Colorbuffer_getRenderTarget_def Colorbuffer_createSharedImage_def
      DepthStencilbuffer_getRenderTarget_def DepthStencilbuffer_createSharedImage_def)

text \<open>The two storages without a backing, in the example world.\<close>

theorem null_backing_gives_null_witness:
  "mRenderTarget (example_Colorbuffer None) = None \<and>
   mDepthStencil (example_DepthStencilbuffer None) = None \<and>
   Colorbuffer_getRenderTarget (example_Colorbuffer None) example_world = Inr (None, example_world) \<and>
   Colorbuffer_createSharedImage (example_Colorbuffer None) example_world = Inr (None, example_world) \<and>
   DepthStencilbuffer_getRenderTarget (example_DepthStencilbuffer None) example_world
     = Inr (None, example_world) \<and>
   DepthStencilbuffer_createSharedImage (example_DepthStencilbuffer None) example_world
     = Inr (None, example_world)"
  using null_backing_gives_null [of "example_Colorbuffer None" example_world
      "example_DepthStencilbuffer None"]
  by (simp add: example_Colorbuffer_def example_DepthStencilbuffer_def)

text \<open>
  C9. \<open>isShared()\<close> of a Colorbuffer or DepthStencilbuffer returns the shared flag of
  the backing Image when the pointer is not null and points to a live Image; on a null
  pointer it is a null-pointer dereference, a fault and not a boolean.
\<close>

theorem isShared_needs_backing:
  "(mRenderTarget cb = Some a \<and> images w a = Some img \<longrightarrow>
      Colorbuffer_isShared cb w = Inr (imageShared img)) \<and>
   (mRenderTarget cb = None \<longrightarrow> Colorbuffer_isShared cb w = Inl NullPointerDereference) \<and>
   (mDepthStencil ds = Some a \<and> images w a = Some img \<longrightarrow>
      DepthStencilbuffer_isShared ds w = Inr (imageShared img)) \<and>
   (mDepthStencil ds = None \<longrightarrow> DepthStencilbuffer_isShared ds w = Inl NullPointerDereference)"
  by (simp add: Colorbuffer_isShared_live DepthStencilbuffer_isShared_live)
     (simp add: Colorbuffer_isShared_def DepthStencilbuffer_isShared_def)

text \<open>
  A storage wrapping the Image of the example world, and the storage that a failed
  allocation leaves.
\<close>

theorem isShared_needs_backing_witness:
  "images example_world 1 = Some example_image \<and>
   Colorbuffer_isShared (example_Colorbuffer (Some 1)) example_world = Inr False \<and>
   DepthStencilbuffer_isShared (example_DepthStencilbuffer (Some 1)) example_world = Inr False \<and>
   Colorbuffer_isShared (fst (Colorbuffer_ctor (example_env False) 64 32 GL_RGBA4_OES 0 example_world))
     (snd (Colorbuffer_ctor (example_env False) 64 32 GL_RGBA4_OES 0 example_world))
     = Inl NullPointerDereference \<and>
   DepthStencilbuffer_isShared (fst (DepthStencilbuffer_ctor (example_env False) 64 32 0 example_world))
     (snd (DepthStencilbuffer_ctor (example_env False) 64 32 0 example_world))
     = Inl NullPointerDereference"
proof -
  let ?c = "Colorbuffer_ctor (example_env False) 64 32 GL_RGBA4_OES 0 example_world"
  let ?d = "DepthStencilbuffer_ctor (example_env False) 64 32 0 example_world"
  have live: "images example_world 1 = Some example_image"
    by (simp add: example_world_def)
  have c: "mRenderTarget (fst ?c) = None"
    by (simp add: Colorbuffer_ctor_failed [where imgs = "images example_world"]
        example_signed example_env_def)
  have d: "mDepthStencil (fst ?d) = None"
    by (simp add: DepthStencilbuffer_ctor_failed [where imgs = "images example_world"]
        example_signed example_env_def)
  have shared: "imageShared example_image = False"
    by (simp add: example_image_def)
  have c1: "mRenderTarget (example_Colorbuffer (Some 1)) = Some 1"
    by (simp add: example_Colorbuffer_def)
  have d1: "mDepthStencil (example_DepthStencilbuffer (Some 1)) = Some 1"
    by (simp add: example_DepthStencilbuffer_def)
  show ?thesis
    using live c d shared c1 d1
      isShared_needs_backing [of "example_Colorbuffer (Some 1)" 1 example_world example_image
        "example_DepthStencilbuffer (Some 1)"]
      isShared_needs_backing [of "fst ?c" 1 "snd ?c" example_image "fst ?d"]
      isShared_needs_backing [of "fst ?c" 1 "snd ?d" example_image "fst ?d"]
    by simp
qed

section \<open>Shared images\<close>

text \<open>
  C8. On a Colorbuffer or DepthStencilbuffer whose backing Image is live,
  \<open>getRenderTarget()\<close> returns the backing with one more reference and leaves its shared
  flag as it was; \<open>createSharedImage()\<close>, called after it (\<open>w1\<close> to \<open>w2\<close>) or alone
  (\<open>w\<close> to \<open>w3\<close>), returns the backing with one more reference, and \<open>isShared()\<close> is
  true afterwards.
\<close>

theorem createSharedImage_marks_shared:
  assumes "images w a = Some img"
  shows
   "(mRenderTarget cb = Some a \<longrightarrow>
      (\<exists>w1 w2 w3.
         Colorbuffer_getRenderTarget cb w = Inr (Some a, w1) \<and>
         images w1 a = Some (img\<lparr>imageReferenceCount := imageReferenceCount img + 1\<rparr>) \<and>
         Colorbuffer_isShared cb w1 = Inr (imageShared img) \<and>
         Colorbuffer_createSharedImage cb w1 = Inr (Some a, w2) \<and>
         images w2 a = Some (img\<lparr>imageReferenceCount := imageReferenceCount img + 2,
                                  imageShared := True\<rparr>) \<and>
         Colorbuffer_isShared cb w2 = Inr True \<and>
         Colorbuffer_createSharedImage cb w = Inr (Some a, w3) \<and>
         images w3 a = Some (img\<lparr>imageReferenceCount := imageReferenceCount img + 1,
                                  imageShared := True\<rparr>) \<and>
         Colorbuffer_isShared cb w3 = Inr True)) \<and>
    (mDepthStencil ds = Some a \<longrightarrow>
      (\<exists>w1 w2 w3.
         DepthStencilbuffer_getRenderTarget ds w = Inr (Some a, w1) \<and>
         images w1 a = Some (img\<lparr>imageReferenceCount := imageReferenceCount img + 1\<rparr>) \<and>
         DepthStencilbuffer_isShared ds w1 = Inr (imageShared img) \<and>
         DepthStencilbuffer_createSharedImage ds w1 = Inr (Some a, w2) \<and>
         images w2 a = Some (img\<lparr>imageReferenceCount := imageReferenceCount img + 2,
                                  imageShared := True\<rparr>) \<and>
         DepthStencilbuffer_isShared ds w2 = Inr True \<and>
         DepthStencilbuffer_createSharedImage ds w = Inr (Some a, w3) \<and>
         images w3 a = Some (img\<lparr>imageReferenceCount := imageReferenceCount img + 1,
                                  imageShared := True\<rparr>) \<and>
         DepthStencilbuffer_isShared ds w3 = Inr True))"
proof (intro conjI impI)
  let ?img1 = "img\<lparr>imageReferenceCount := imageReferenceCount img + 1\<rparr>"
  let ?w1 = "w\<lparr>images := (images w)(a \<mapsto> ?img1), calls := calls w @ [Call_Image_addRef a]\<rparr>"
  have live1: "images ?w1 a = Some ?img1" by simp
  {
    assume cb: "mRenderTarget cb = Some a"
    show "\<exists>w1 w2 w3.
         Colorbuffer_getRenderTarget cb w = Inr (Some a, w1) \<and>
         images w1 a = Some (img\<lparr>imageReferenceCount := imageReferenceCount img + 1\<rparr>) \<and>
         Colorbuffer_isShared cb w1 = Inr (imageShared img) \<and>
         Colorbuffer_createSharedImage cb w1 = Inr (Some a, w2) \<and>
         images w2 a = Some (img\<lparr>imageReferenceCount := imageReferenceCount img + 2,
                                  imageShared := True\<rparr>) \<and>
         Colorbuffer_isShared cb w2 = Inr True \<and>
         Colorbuffer_createSharedImage cb w = Inr (Some a, w3) \<and>
         images w3 a = Some (img\<lparr>imageReferenceCount := imageReferenceCount img + 1,
                                  imageShared := True\<rparr>) \<and>
         Colorbuffer_isShared cb w3 = Inr True"
      using Colorbuffer_getRenderTarget_live [OF cb assms]
        Colorbuffer_createSharedImage_live [OF cb live1]
        Colorbuffer_createSharedImage_live [OF cb assms]
      by (simp add: Colorbuffer_isShared_live [OF cb])
  }
  {
    assume ds: "mDepthStencil ds = Some a"
    show "\<exists>w1 w2 w3.
         DepthStencilbuffer_getRenderTarget ds w = Inr (Some a, w1) \<and>
         images w1 a = Some (img\<lparr>imageReferenceCount := imageReferenceCount img + 1\<rparr>) \<and>
         DepthStencilbuffer_isShared ds w1 = Inr (imageShared img) \<and>
         DepthStencilbuffer_createSharedImage ds w1 = Inr (Some a, w2) \<and>
         images w2 a = Some (img\<lparr>imageReferenceCount := imageReferenceCount img + 2,
                                  imageShared := True\<rparr>) \<and>
         DepthStencilbuffer_isShared ds w2 = Inr True \<and>
         DepthStencilbuffer_createSharedImage ds w = Inr (Some a, w3) \<and>
         images w3 a = Some (img\<lparr>imageReferenceCount := imageReferenceCount img + 1,
                                  imageShared := True\<rparr>) \<and>
         DepthStencilbuffer_isShared ds w3 = Inr True"
      using DepthStencilbuffer_getRenderTarget_live [OF ds assms]
        DepthStencilbuffer_createSharedImage_live [OF ds live1]
        DepthStencilbuffer_createSharedImage_live [OF ds assms]
      by (simp add: DepthStencilbuffer_isShared_live [OF ds])
  }
qed


text \<open>Both storages over the unshared Image of the example world.\<close>

theorem createSharedImage_marks_shared_witness:
  "images example_world 1 = Some example_image \<and>
   (\<exists>w1 w2.
      Colorbuffer_getRenderTarget (example_Colorbuffer (Some 1)) example_world = Inr (Some 1, w1) \<and>
      Colorbuffer_isShared (example_Colorbuffer (Some 1)) w1 = Inr False \<and>
      Colorbuffer_createSharedImage (example_Colorbuffer (Some 1)) w1 = Inr (Some 1, w2) \<and>
      Colorbuffer_isShared (example_Colorbuffer (Some 1)) w2 = Inr True) \<and>
   (\<exists>w1 w2.
      DepthStencilbuffer_getRenderTarget (example_DepthStencilbuffer (Some 1)) example_world
        = Inr (Some 1, w1) \<and>
      DepthStencilbuffer_isShared (example_DepthStencilbuffer (Some 1)) w1 = Inr False \<and>
      DepthStencilbuffer_createSharedImage (example_DepthStencilbuffer (Some 1)) w1
        = Inr (Some 1, w2) \<and>
      DepthStencilbuffer_isShared (example_DepthStencilbuffer (Some 1)) w2 = Inr True)"
proof -
  have live: "images example_world 1 = Some example_image"
    by (simp add: example_world_def)
  have c: "mRenderTarget (example_Colorbuffer (Some 1)) = Some 1"
    by (simp add: example_Colorbuffer_def)
  have d: "mDepthStencil (example_DepthStencilbuffer (Some 1)) = Some 1"
    by (simp add: example_DepthStencilbuffer_def)
  have flag: "imageShared example_image = False"
    by (simp add: example_image_def)
  from createSharedImage_marks_shared [OF live, of "example_Colorbuffer (Some 1)"
      "example_DepthStencilbuffer (Some 1)"] c d flag live
  show ?thesis by auto
qed

section \<open>Wrap mode\<close>

text \<open>
  C6. Constructing a Colorbuffer or a DepthStencilbuffer from a pointer to a live Image
  allocates nothing: the only call is one \<open>addRef\<close> on that Image, whose count goes up by
  one, and the heap holds the same images. The storage reports the Image's width, height
  and internal format, the converted internal format as its format
  (\<open>ConvertBackBufferFormat\<close> and \<open>ConvertDepthStencilFormat\<close>), and the Image's depth
  with the low bit cleared as its samples.
\<close>

theorem wrap_mode_copies_the_Image:
  assumes "images w a = Some img"
  shows
   "(\<exists>cb w'.
       Colorbuffer_ctor_Image env (Some a) w = Inr (cb, w') \<and>
       mRenderTarget cb = Some a \<and>
       images w' = (images w)(a \<mapsto> img\<lparr>imageReferenceCount := imageReferenceCount img + 1\<rparr>) \<and>
       dom (images w') = dom (images w) \<and>
       calls w' = calls w @ [Call_Image_addRef a] \<and>
       RenderbufferStorage_getWidth cb = imageWidth img \<and>
       RenderbufferStorage_getHeight cb = imageHeight img \<and>
       RenderbufferStorage_getInternalFormat cb = imageInternalFormat img \<and>
       RenderbufferStorage_getFormat cb = ConvertBackBufferFormat env (imageInternalFormat img) \<and>
       RenderbufferStorage_getSamples cb = imageDepth img AND NOT 1) \<and>
    (\<exists>ds w'.
       DepthStencilbuffer_ctor_Image env (Some a) w = Inr (ds, w') \<and>
       mDepthStencil ds = Some a \<and>
       images w' = (images w)(a \<mapsto> img\<lparr>imageReferenceCount := imageReferenceCount img + 1\<rparr>) \<and>
       dom (images w') = dom (images w) \<and>
       calls w' = calls w @ [Call_Image_addRef a] \<and>
       RenderbufferStorage_getWidth ds = imageWidth img \<and>
       RenderbufferStorage_getHeight ds = imageHeight img \<and>
       RenderbufferStorage_getInternalFormat ds = imageInternalFormat img \<and>
       RenderbufferStorage_getFormat ds = ConvertDepthStencilFormat env (imageInternalFormat img) \<and>
       RenderbufferStorage_getSamples ds = imageDepth img AND NOT 1)"
proof -
  have d: "insert a (dom (images w)) = dom (images w)"
    using assms by auto
  show ?thesis
    by (simp add: Colorbuffer_ctor_Image_live [OF assms] DepthStencilbuffer_ctor_Image_live [OF assms]
        RenderbufferStorage_getWidth_def RenderbufferStorage_getHeight_def
        RenderbufferStorage_getInternalFormat_def RenderbufferStorage_getFormat_def
        RenderbufferStorage_getSamples_def d)
qed

text \<open>The example Image is 64 by 32, of depth 5: the storages report 4 samples.\<close>

theorem wrap_mode_copies_the_Image_witness:
  "images example_world 1 = Some example_image \<and>
   (\<exists>cb w'.
      Colorbuffer_ctor_Image (example_env True) (Some 1) example_world = Inr (cb, w') \<and>
      calls w' = [Call_Image_addRef 1] \<and>
      RenderbufferStorage_getWidth cb = 64 \<and>
      RenderbufferStorage_getHeight cb = 32 \<and>
      RenderbufferStorage_getInternalFormat cb = FORMAT_D24S8 \<and>
      RenderbufferStorage_getSamples cb = 4) \<and>
   (\<exists>ds w'.
      DepthStencilbuffer_ctor_Image (example_env True) (Some 1) example_world = Inr (ds, w') \<and>
      calls w' = [Call_Image_addRef 1] \<and>
      RenderbufferStorage_getWidth ds = 64 \<and>
      RenderbufferStorage_getHeight ds = 32 \<and>
      RenderbufferStorage_getInternalFormat ds = FORMAT_D24S8 \<and>
      RenderbufferStorage_getFormat ds = GL_DEPTH24_STENCIL8_OES \<and>
      RenderbufferStorage_getSamples ds = 4)"
proof -
  have live: "images example_world 1 = Some example_image"
    by (simp add: example_world_def)
  have img: "imageWidth example_image = 64" "imageHeight example_image = 32"
    "imageInternalFormat example_image = FORMAT_D24S8" "imageDepth example_image AND NOT 1 = 4"
    by (simp_all add: example_image_def)
  have env: "ConvertDepthStencilFormat (example_env True) FORMAT_D24S8 = GL_DEPTH24_STENCIL8_OES"
    by (simp add: example_env_def)
  have log: "calls example_world = []"
    by (simp add: example_world_def)
  from wrap_mode_copies_the_Image [OF live, of "example_env True"] img env log live
  show ?thesis by auto
qed

section \<open>Allocate mode\<close>

text \<open>
  C5. When the width or the height is zero or negative, the allocate-mode constructors of
  Colorbuffer and DepthStencilbuffer call nothing (the world they return is the world they
  got, whatever the device is), leave the Image pointer null and report the requested width
  and height.
\<close>

theorem no_area_no_allocation:
  assumes "width \<le>s 0 \<or> height \<le>s 0"
  shows
   "(\<exists>cb. Colorbuffer_ctor env width height fmt samples w = (cb, w) \<and>
          mRenderTarget cb = None \<and>
          RenderbufferStorage_getWidth cb = width \<and>
          RenderbufferStorage_getHeight cb = height) \<and>
    (\<exists>ds. DepthStencilbuffer_ctor env width height samples w = (ds, w) \<and>
          mDepthStencil ds = None \<and>
          RenderbufferStorage_getWidth ds = width \<and>
          RenderbufferStorage_getHeight ds = height)"
proof -
  have "\<not> (0 <s width \<and> 0 <s height)"
    using assms by (auto simp add: word_sless_alt word_sle_eq)
  then show ?thesis
    by (simp add: Colorbuffer_ctor_no_area DepthStencilbuffer_ctor_no_area
        RenderbufferStorage_getWidth_def RenderbufferStorage_getHeight_def)
qed

text \<open>Width 0 and height -3, on a device that would allocate.\<close>

theorem no_area_no_allocation_witness:
  "((0::cint) \<le>s 0 \<or> (- 3 :: cint) \<le>s 0) \<and>
   (\<exists>cb. Colorbuffer_ctor (example_env True) 0 (- 3) GL_RGBA4_OES 8 example_world
            = (cb, example_world) \<and>
         mRenderTarget cb = None \<and>
         RenderbufferStorage_getWidth cb = 0 \<and>
         RenderbufferStorage_getHeight cb = - 3) \<and>
   (\<exists>ds. DepthStencilbuffer_ctor (example_env True) 0 (- 3) 8 example_world = (ds, example_world) \<and>
         mDepthStencil ds = None \<and>
         RenderbufferStorage_getWidth ds = 0 \<and>
         RenderbufferStorage_getHeight ds = - 3)"
proof -
  have h: "(0::cint) \<le>s 0 \<or> (- 3 :: cint) \<le>s 0"
    by (simp add: word_sle_eq)
  from h no_area_no_allocation [OF h, of "example_env True" GL_RGBA4_OES 8 example_world]
  show ?thesis by simp
qed

text \<open>
  C4. With a positive width and height, when the device returns a pointer to a live Image,
  the storage that each of the four allocate-mode constructors builds (Colorbuffer,
  DepthStencilbuffer, Depthbuffer, Stencilbuffer) reports the requested width and height,
  the value of \<open>getSupportedMultisampleCount\<close> at the requested sample count as its
  samples, and \<open>getRenderTarget()\<close> returns that pointer, not null, with the Image's
  reference count one higher.
\<close>

theorem allocation_success:
  assumes "0 <s width" and "0 <s height" and "imgs a = Some img"
  shows
   "(createRenderTarget env width height (ConvertRenderbufferFormat env fmt)
       (getSupportedMultisampleCount env samples) False (images w) = (Some a, imgs) \<longrightarrow>
     (\<exists>cb w1 w2.
        Colorbuffer_ctor env width height fmt samples w = (cb, w1) \<and>
        RenderbufferStorage_getWidth cb = width \<and>
        RenderbufferStorage_getHeight cb = height \<and>
        RenderbufferStorage_getSamples cb = getSupportedMultisampleCount env samples \<and>
        Colorbuffer_getRenderTarget cb w1 = Inr (Some a, w2) \<and>
        images w1 a = Some img \<and>
        images w2 a = Some (img\<lparr>imageReferenceCount := imageReferenceCount img + 1\<rparr>))) \<and>
    (createDepthStencilSurface env width height FORMAT_D24S8
       (getSupportedMultisampleCount env samples) False (images w) = (Some a, imgs) \<longrightarrow>
     (\<exists>ds w1 w2.
        DepthStencilbuffer_ctor env width height samples w = (ds, w1) \<and>
        RenderbufferStorage_getWidth ds = width \<and>
        RenderbufferStorage_getHeight ds = height \<and>
        RenderbufferStorage_getSamples ds = getSupportedMultisampleCount env samples \<and>
        DepthStencilbuffer_getRenderTarget ds w1 = Inr (Some a, w2) \<and>
        images w1 a = Some img \<and>
        images w2 a = Some (img\<lparr>imageReferenceCount := imageReferenceCount img + 1\<rparr>))) \<and>
    (createDepthStencilSurface env width height FORMAT_D24S8
       (getSupportedMultisampleCount env samples) False (images w) = (Some a, imgs) \<longrightarrow>
     (\<exists>d w1 w2.
        Depthbuffer_ctor env width height samples w = (d, w1) \<and>
        RenderbufferStorage_getWidth d = width \<and>
        RenderbufferStorage_getHeight d = height \<and>
        RenderbufferStorage_getSamples d = getSupportedMultisampleCount env samples \<and>
        DepthStencilbuffer_getRenderTarget d w1 = Inr (Some a, w2) \<and>
        images w1 a = Some img \<and>
        images w2 a = Some (img\<lparr>imageReferenceCount := imageReferenceCount img + 1\<rparr>))) \<and>
    (createDepthStencilSurface env width height FORMAT_D24S8
       (getSupportedMultisampleCount env samples) False (images w) = (Some a, imgs) \<longrightarrow>
     (\<exists>s w1 w2.
        Stencilbuffer_ctor env width height samples w = (s, w1) \<and>
        RenderbufferStorage_getWidth s = width \<and>
        RenderbufferStorage_getHeight s = height \<and>
        RenderbufferStorage_getSamples s = getSupportedMultisampleCount env samples \<and>
        DepthStencilbuffer_getRenderTarget s w1 = Inr (Some a, w2) \<and>
        images w1 a = Some img \<and>
        images w2 a = Some (img\<lparr>imageReferenceCount := imageReferenceCount img + 1\<rparr>)))"
proof (intro conjI impI)
  assume dev: "createRenderTarget env width height (ConvertRenderbufferFormat env fmt)
       (getSupportedMultisampleCount env samples) False (images w) = (Some a, imgs)"
  show "\<exists>cb w1 w2.
        Colorbuffer_ctor env width height fmt samples w = (cb, w1) \<and>
        RenderbufferStorage_getWidth cb = width \<and>
        RenderbufferStorage_getHeight cb = height \<and>
        RenderbufferStorage_getSamples cb = getSupportedMultisampleCount env samples \<and>
        Colorbuffer_getRenderTarget cb w1 = Inr (Some a, w2) \<and>
        images w1 a = Some img \<and>
        images w2 a = Some (img\<lparr>imageReferenceCount := imageReferenceCount img + 1\<rparr>)"
    using assms(3)
    by (simp add: Colorbuffer_ctor_allocated [OF assms(1,2) dev]
        RenderbufferStorage_getWidth_def RenderbufferStorage_getHeight_def
        RenderbufferStorage_getSamples_def Colorbuffer_getRenderTarget_live [where img = img])
next
  assume dev: "createDepthStencilSurface env width height FORMAT_D24S8
       (getSupportedMultisampleCount env samples) False (images w) = (Some a, imgs)"
  show "\<exists>ds w1 w2.
        DepthStencilbuffer_ctor env width height samples w = (ds, w1) \<and>
        RenderbufferStorage_getWidth ds = width \<and>
        RenderbufferStorage_getHeight ds = height \<and>
        RenderbufferStorage_getSamples ds = getSupportedMultisampleCount env samples \<and>
        DepthStencilbuffer_getRenderTarget ds w1 = Inr (Some a, w2) \<and>
        images w1 a = Some img \<and>
        images w2 a = Some (img\<lparr>imageReferenceCount := imageReferenceCount img + 1\<rparr>)"
    using assms(3)
    by (simp add: DepthStencilbuffer_ctor_allocated [OF assms(1,2) dev]
        RenderbufferStorage_getWidth_def RenderbufferStorage_getHeight_def
        RenderbufferStorage_getSamples_def DepthStencilbuffer_getRenderTarget_live [where img = img])
next
  assume dev: "createDepthStencilSurface env width height FORMAT_D24S8
       (getSupportedMultisampleCount env samples) False (images w) = (Some a, imgs)"
  show "\<exists>d w1 w2.
        Depthbuffer_ctor env width height samples w = (d, w1) \<and>
        RenderbufferStorage_getWidth d = width \<and>
        RenderbufferStorage_getHeight d = height \<and>
        RenderbufferStorage_getSamples d = getSupportedMultisampleCount env samples \<and>
        DepthStencilbuffer_getRenderTarget d w1 = Inr (Some a, w2) \<and>
        images w1 a = Some img \<and>
        images w2 a = Some (img\<lparr>imageReferenceCount := imageReferenceCount img + 1\<rparr>)"
    using assms(3)
    by (simp add: Depthbuffer_ctor_allocated [OF assms(1,2) dev]
        RenderbufferStorage_getWidth_def RenderbufferStorage_getHeight_def
        RenderbufferStorage_getSamples_def DepthStencilbuffer_getRenderTarget_live [where img = img])
next
  assume dev: "createDepthStencilSurface env width height FORMAT_D24S8
       (getSupportedMultisampleCount env samples) False (images w) = (Some a, imgs)"
  show "\<exists>s w1 w2.
        Stencilbuffer_ctor env width height samples w = (s, w1) \<and>
        RenderbufferStorage_getWidth s = width \<and>
        RenderbufferStorage_getHeight s = height \<and>
        RenderbufferStorage_getSamples s = getSupportedMultisampleCount env samples \<and>
        DepthStencilbuffer_getRenderTarget s w1 = Inr (Some a, w2) \<and>
        images w1 a = Some img \<and>
        images w2 a = Some (img\<lparr>imageReferenceCount := imageReferenceCount img + 1\<rparr>)"
    using assms(3)
    by (simp add: Stencilbuffer_ctor_allocated [OF assms(1,2) dev]
        RenderbufferStorage_getWidth_def RenderbufferStorage_getHeight_def
        RenderbufferStorage_getSamples_def DepthStencilbuffer_getRenderTarget_live [where img = img])
qed

text \<open>Eight samples requested on a device that supports 0, 2 and 4: the storage reports 4.\<close>

theorem allocation_success_witness:
  "(0::cint) <s 64 \<and> (0::cint) <s 32 \<and>
   getSupportedMultisampleCount (example_env True) 8 = 4 \<and>
   (\<exists>cb w1 w2.
      Colorbuffer_ctor (example_env True) 64 32 GL_RGBA4_OES 8 example_world = (cb, w1) \<and>
      RenderbufferStorage_getWidth cb = 64 \<and>
      RenderbufferStorage_getHeight cb = 32 \<and>
      RenderbufferStorage_getSamples cb = 4 \<and>
      Colorbuffer_getRenderTarget cb w1 = Inr (Some 7, w2) \<and>
      images w1 7 = Some (new_image 64 32 FORMAT_A8B8G8R8 4) \<and>
      images w2 7 = Some ((new_image 64 32 FORMAT_A8B8G8R8 4)\<lparr>imageReferenceCount := 2\<rparr>)) \<and>
   (\<exists>ds w1 w2.
      DepthStencilbuffer_ctor (example_env True) 64 32 8 example_world = (ds, w1) \<and>
      RenderbufferStorage_getWidth ds = 64 \<and>
      RenderbufferStorage_getHeight ds = 32 \<and>
      RenderbufferStorage_getSamples ds = 4 \<and>
      DepthStencilbuffer_getRenderTarget ds w1 = Inr (Some 8, w2) \<and>
      images w1 8 = Some (new_image 64 32 FORMAT_D24S8 4) \<and>
      images w2 8 = Some ((new_image 64 32 FORMAT_D24S8 4)\<lparr>imageReferenceCount := 2\<rparr>)) \<and>
   (\<exists>d w1 w2.
      Depthbuffer_ctor (example_env True) 64 32 8 example_world = (d, w1) \<and>
      RenderbufferStorage_getWidth d = 64 \<and>
      RenderbufferStorage_getHeight d = 32 \<and>
      RenderbufferStorage_getSamples d = 4 \<and>
      DepthStencilbuffer_getRenderTarget d w1 = Inr (Some 8, w2) \<and>
      images w1 8 = Some (new_image 64 32 FORMAT_D24S8 4) \<and>
      images w2 8 = Some ((new_image 64 32 FORMAT_D24S8 4)\<lparr>imageReferenceCount := 2\<rparr>)) \<and>
   (\<exists>s w1 w2.
      Stencilbuffer_ctor (example_env True) 64 32 8 example_world = (s, w1) \<and>
      RenderbufferStorage_getWidth s = 64 \<and>
      RenderbufferStorage_getHeight s = 32 \<and>
      RenderbufferStorage_getSamples s = 4 \<and>
      DepthStencilbuffer_getRenderTarget s w1 = Inr (Some 8, w2) \<and>
      images w1 8 = Some (new_image 64 32 FORMAT_D24S8 4) \<and>
      images w2 8 = Some ((new_image 64 32 FORMAT_D24S8 4)\<lparr>imageReferenceCount := 2\<rparr>))"
proof -
  let ?c = "new_image 64 32 FORMAT_A8B8G8R8 4"
  let ?d = "new_image 64 32 FORMAT_D24S8 4"
  have s: "getSupportedMultisampleCount (example_env True) 8 = 4"
    by (simp add: example_env_def example_signed)
  have f: "ConvertRenderbufferFormat (example_env True) GL_RGBA4_OES = FORMAT_A8B8G8R8"
    by (simp add: example_env_def)
  have devc: "createRenderTarget (example_env True) 64 32
       (ConvertRenderbufferFormat (example_env True) GL_RGBA4_OES)
       (getSupportedMultisampleCount (example_env True) 8) False (images example_world)
     = (Some 7, (images example_world)(7 \<mapsto> ?c))"
    by (simp add: s f) (simp add: example_env_def)
  have devd: "createDepthStencilSurface (example_env True) 64 32 FORMAT_D24S8
       (getSupportedMultisampleCount (example_env True) 8) False (images example_world)
     = (Some 8, (images example_world)(8 \<mapsto> ?d))"
    by (simp add: s) (simp add: example_env_def)
  have livec: "((images example_world)(7 \<mapsto> ?c)) 7 = Some ?c"
    by simp
  have lived: "((images example_world)(8 \<mapsto> ?d)) 8 = Some ?d"
    by simp
  have rc: "imageReferenceCount ?c + 1 = 2" "imageReferenceCount ?d + 1 = 2"
    by (simp_all add: new_image_def)
  from allocation_success [where env = "example_env True" and fmt = GL_RGBA4_OES
      and samples = 8 and w = example_world and width = 64 and height = 32 and a = 7
      and imgs = "(images example_world)(7 \<mapsto> ?c)" and img = ?c]
    allocation_success [where env = "example_env True" and fmt = GL_RGBA4_OES
      and samples = 8 and w = example_world and width = 64 and height = 32 and a = 8
      and imgs = "(images example_world)(8 \<mapsto> ?d)" and img = ?d]
    devc devd livec lived s rc example_signed(1,2)
  show ?thesis by auto
qed

text \<open>
  C1 as stated: after a failed allocation the queries report the requested width, height,
  format and samples. At 64 by 32, GL_RGB565_OES, 4 samples, on a device that returns null,
  none of the four does, for either class.
\<close>

theorem failed_allocation_keeps_request_counterexample:
  "(0::cint) <s 64 \<and> (0::cint) <s 32 \<and>
   fst (createRenderTarget (example_env False) 64 32
          (ConvertRenderbufferFormat (example_env False) GL_RGB565_OES)
          (getSupportedMultisampleCount (example_env False) 4) False (images example_world)) = None \<and>
   fst (createDepthStencilSurface (example_env False) 64 32 FORMAT_D24S8
          (getSupportedMultisampleCount (example_env False) 4) False (images example_world)) = None \<and>
   getSupportedMultisampleCount (example_env False) 4 = 4 \<and>
   RenderbufferStorage_getWidth
     (fst (Colorbuffer_ctor (example_env False) 64 32 GL_RGB565_OES 4 example_world)) \<noteq> 64 \<and>
   RenderbufferStorage_getHeight
     (fst (Colorbuffer_ctor (example_env False) 64 32 GL_RGB565_OES 4 example_world)) \<noteq> 32 \<and>
   RenderbufferStorage_getFormat
     (fst (Colorbuffer_ctor (example_env False) 64 32 GL_RGB565_OES 4 example_world))
     \<noteq> GL_RGB565_OES \<and>
   RenderbufferStorage_getSamples
     (fst (Colorbuffer_ctor (example_env False) 64 32 GL_RGB565_OES 4 example_world)) \<noteq> 4 \<and>
   RenderbufferStorage_getWidth
     (fst (DepthStencilbuffer_ctor (example_env False) 64 32 4 example_world)) \<noteq> 64 \<and>
   RenderbufferStorage_getHeight
     (fst (DepthStencilbuffer_ctor (example_env False) 64 32 4 example_world)) \<noteq> 32 \<and>
   RenderbufferStorage_getFormat
     (fst (DepthStencilbuffer_ctor (example_env False) 64 32 4 example_world))
     \<noteq> GL_DEPTH24_STENCIL8_OES \<and>
   RenderbufferStorage_getSamples
     (fst (DepthStencilbuffer_ctor (example_env False) 64 32 4 example_world)) \<noteq> 4"
proof -
  have s: "getSupportedMultisampleCount (example_env False) 4 = 4"
    by (simp add: example_env_def word_sle_eq)
  have devc: "createRenderTarget (example_env False) 64 32
          (ConvertRenderbufferFormat (example_env False) GL_RGB565_OES)
          (getSupportedMultisampleCount (example_env False) 4) False (images example_world)
        = (None, images example_world)"
    by (simp add: example_env_def)
  have devd: "createDepthStencilSurface (example_env False) 64 32 FORMAT_D24S8
          (getSupportedMultisampleCount (example_env False) 4) False (images example_world)
        = (None, images example_world)"
    by (simp add: example_env_def)
  have c: "fst (Colorbuffer_ctor (example_env False) 64 32 GL_RGB565_OES 4 example_world)
      = \<lparr>mWidth = 0, mHeight = 0, format = GL_RGBA4_OES, internalFormat = FORMAT_A8B8G8R8,
         mSamples = 0, mRenderTarget = None\<rparr>"
    by (simp add: Colorbuffer_ctor_failed [OF example_signed(1) example_signed(2) devc])
  have d: "fst (DepthStencilbuffer_ctor (example_env False) 64 32 4 example_world)
      = \<lparr>mWidth = 0, mHeight = 0, format = GL_RGBA4_OES, internalFormat = FORMAT_A8B8G8R8,
         mSamples = 0, mDepthStencil = None\<rparr>"
    by (simp add: DepthStencilbuffer_ctor_failed [OF example_signed(1) example_signed(2) devd])
  have e: "GL_RGBA4_OES \<noteq> GL_RGB565_OES" "GL_RGBA4_OES \<noteq> GL_DEPTH24_STENCIL8_OES"
    by (simp_all add: GL_RGBA4_OES_def GL_RGB565_OES_def GL_DEPTH24_STENCIL8_OES_def)
  show ?thesis
    using devc devd
    by (simp add: c d e s example_signed RenderbufferStorage_getWidth_def
        RenderbufferStorage_getHeight_def RenderbufferStorage_getFormat_def
        RenderbufferStorage_getSamples_def)
qed

text \<open>
  C1, amended. With a positive width and height, when the device returns null, the
  allocate-mode constructors of Colorbuffer and DepthStencilbuffer make the device call and
  then raise GL_OUT_OF_MEMORY once, leave the Image pointer null, and return before the
  assignments: width, height and samples stay 0, the format GL_RGBA4_OES and the internal
  format FORMAT_A8B8G8R8, as \<open>RenderbufferStorage()\<close> set them.
\<close>

theorem failed_allocation_leaves_defaults:
  assumes "0 <s width" and "0 <s height"
  shows
   "(createRenderTarget env width height (ConvertRenderbufferFormat env fmt)
       (getSupportedMultisampleCount env samples) False (images w) = (None, imgs) \<longrightarrow>
     (\<exists>cb w'.
        Colorbuffer_ctor env width height fmt samples w = (cb, w') \<and>
        calls w' = calls w @
          [Call_createRenderTarget width height (ConvertRenderbufferFormat env fmt)
             (getSupportedMultisampleCount env samples) False,
           Call_error GL_OUT_OF_MEMORY] \<and>
        images w' = imgs \<and>
        mRenderTarget cb = None \<and>
        RenderbufferStorage_getWidth cb = 0 \<and>
        RenderbufferStorage_getHeight cb = 0 \<and>
        RenderbufferStorage_getFormat cb = GL_RGBA4_OES \<and>
        RenderbufferStorage_getInternalFormat cb = FORMAT_A8B8G8R8 \<and>
        RenderbufferStorage_getSamples cb = 0)) \<and>
    (createDepthStencilSurface env width height FORMAT_D24S8
       (getSupportedMultisampleCount env samples) False (images w) = (None, imgs) \<longrightarrow>
     (\<exists>ds w'.
        DepthStencilbuffer_ctor env width height samples w = (ds, w') \<and>
        calls w' = calls w @
          [Call_createDepthStencilSurface width height FORMAT_D24S8
             (getSupportedMultisampleCount env samples) False,
           Call_error GL_OUT_OF_MEMORY] \<and>
        images w' = imgs \<and>
        mDepthStencil ds = None \<and>
        RenderbufferStorage_getWidth ds = 0 \<and>
        RenderbufferStorage_getHeight ds = 0 \<and>
        RenderbufferStorage_getFormat ds = GL_RGBA4_OES \<and>
        RenderbufferStorage_getInternalFormat ds = FORMAT_A8B8G8R8 \<and>
        RenderbufferStorage_getSamples ds = 0))"
  by (simp add: Colorbuffer_ctor_failed [OF assms] DepthStencilbuffer_ctor_failed [OF assms]
      RenderbufferStorage_getWidth_def RenderbufferStorage_getHeight_def
      RenderbufferStorage_getFormat_def RenderbufferStorage_getInternalFormat_def
      RenderbufferStorage_getSamples_def)

text \<open>The failing request of the counterexample.\<close>

theorem failed_allocation_leaves_defaults_witness:
  "(0::cint) <s 64 \<and> (0::cint) <s 32 \<and>
   (\<exists>cb w'.
      Colorbuffer_ctor (example_env False) 64 32 GL_RGB565_OES 4 example_world = (cb, w') \<and>
      calls w' = [Call_createRenderTarget 64 32 (FORMAT_enumerator 36194) 4 False,
                  Call_error GL_OUT_OF_MEMORY] \<and>
      mRenderTarget cb = None \<and>
      RenderbufferStorage_getWidth cb = 0 \<and>
      RenderbufferStorage_getHeight cb = 0 \<and>
      RenderbufferStorage_getFormat cb = GL_RGBA4_OES \<and>
      RenderbufferStorage_getSamples cb = 0) \<and>
   (\<exists>ds w'.
      DepthStencilbuffer_ctor (example_env False) 64 32 4 example_world = (ds, w') \<and>
      calls w' = [Call_createDepthStencilSurface 64 32 FORMAT_D24S8 4 False,
                  Call_error GL_OUT_OF_MEMORY] \<and>
      mDepthStencil ds = None \<and>
      RenderbufferStorage_getWidth ds = 0 \<and>
      RenderbufferStorage_getHeight ds = 0 \<and>
      RenderbufferStorage_getFormat ds = GL_RGBA4_OES \<and>
      RenderbufferStorage_getSamples ds = 0)"
proof -
  have s: "getSupportedMultisampleCount (example_env False) 4 = 4"
    by (simp add: example_env_def word_sle_eq)
  have f: "ConvertRenderbufferFormat (example_env False) GL_RGB565_OES = FORMAT_enumerator 36194"
    by (simp add: example_env_def GL_RGB565_OES_def GL_RGBA4_OES_def)
  have devc: "createRenderTarget (example_env False) 64 32
          (ConvertRenderbufferFormat (example_env False) GL_RGB565_OES)
          (getSupportedMultisampleCount (example_env False) 4) False (images example_world)
        = (None, images example_world)"
    by (simp add: example_env_def)
  have devd: "createDepthStencilSurface (example_env False) 64 32 FORMAT_D24S8
          (getSupportedMultisampleCount (example_env False) 4) False (images example_world)
        = (None, images example_world)"
    by (simp add: example_env_def)
  have log: "calls example_world = []"
    by (simp add: example_world_def)
  from failed_allocation_leaves_defaults [OF example_signed(1) example_signed(2),
      of "example_env False" GL_RGB565_OES 4 example_world "images example_world"]
    devc devd s f log example_signed(1,2)
  show ?thesis by auto
qed

section \<open>Depthbuffer and Stencilbuffer\<close>

lemma DepthStencilbuffer_ctor_backing:
  "mDepthStencil (fst (DepthStencilbuffer_ctor env width height samples w)) \<noteq> None \<Longrightarrow>
   format (fst (DepthStencilbuffer_ctor env width height samples w)) = GL_DEPTH24_STENCIL8_OES \<and>
   internalFormat (fst (DepthStencilbuffer_ctor env width height samples w)) = FORMAT_D24S8"
  by (simp add: DepthStencilbuffer_ctor_def Let_def RenderbufferStorage_ctor_def
      DepthStencilbuffer.defs split: if_splits)

text \<open>
  C7 as stated: over a non-null backing \<open>getInternalFormat()\<close> reports the combined
  depth-stencil internal format, FORMAT_D24S8. A Depthbuffer or Stencilbuffer that wraps the
  Image of the colour world reports the single-aspect format and the Image's own internal
  format, FORMAT_A8B8G8R8.
\<close>

theorem single_aspect_format_counterexample:
  "images example_color_world 1 = Some example_color_image \<and>
   \<not> isl (Depthbuffer_ctor_Image (example_env True) (Some 1) example_color_world) \<and>
   mDepthStencil (fst (projr (Depthbuffer_ctor_Image (example_env True) (Some 1) example_color_world)))
     = Some 1 \<and>
   RenderbufferStorage_getFormat
     (fst (projr (Depthbuffer_ctor_Image (example_env True) (Some 1) example_color_world)))
     = GL_DEPTH_COMPONENT16_OES \<and>
   RenderbufferStorage_getInternalFormat
     (fst (projr (Depthbuffer_ctor_Image (example_env True) (Some 1) example_color_world)))
     = FORMAT_A8B8G8R8 \<and>
   RenderbufferStorage_getInternalFormat
     (fst (projr (Depthbuffer_ctor_Image (example_env True) (Some 1) example_color_world)))
     \<noteq> FORMAT_D24S8 \<and>
   RenderbufferStorage_getInternalFormat
     (fst (projr (Stencilbuffer_ctor_Image (example_env True) (Some 1) example_color_world)))
     \<noteq> FORMAT_D24S8"
proof -
  have live: "images example_color_world 1 = Some example_color_image"
    by (simp add: example_color_world_def)
  note base = DepthStencilbuffer_ctor_Image_live [OF live, of "example_env True"]
  have f: "imageInternalFormat example_color_image = FORMAT_A8B8G8R8"
    by (simp add: example_color_image_def)
  show ?thesis
    using live base f
    by (simp add: Depthbuffer_ctor_Image_def Stencilbuffer_ctor_Image_def
        RenderbufferStorage_getFormat_def RenderbufferStorage_getInternalFormat_def)
qed

text \<open>
  C7, amended. A Depthbuffer (Stencilbuffer) over a non-null backing reports
  GL_DEPTH_COMPONENT16_OES (GL_STENCIL_INDEX8_OES) as its format, and as its internal
  format what the base constructor set: the wrapped Image's internal format in wrap mode,
  FORMAT_D24S8 in allocate mode. With a null backing the constructor returns what the
  constructor of DepthStencilbuffer returns, format included.
\<close>

theorem single_aspect_format:
  "(images w a = Some img \<longrightarrow>
      (\<exists>d w'. Depthbuffer_ctor_Image env (Some a) w = Inr (d, w') \<and>
          mDepthStencil d = Some a \<and>
          RenderbufferStorage_getFormat d = GL_DEPTH_COMPONENT16_OES \<and>
          RenderbufferStorage_getInternalFormat d = imageInternalFormat img) \<and>
      (\<exists>s w'. Stencilbuffer_ctor_Image env (Some a) w = Inr (s, w') \<and>
          mDepthStencil s = Some a \<and>
          RenderbufferStorage_getFormat s = GL_STENCIL_INDEX8_OES \<and>
          RenderbufferStorage_getInternalFormat s = imageInternalFormat img)) \<and>
   Depthbuffer_ctor_Image env None w = DepthStencilbuffer_ctor_Image env None w \<and>
   Stencilbuffer_ctor_Image env None w = DepthStencilbuffer_ctor_Image env None w \<and>
   mDepthStencil (fst (Depthbuffer_ctor env width height samples w))
     = mDepthStencil (fst (DepthStencilbuffer_ctor env width height samples w)) \<and>
   mDepthStencil (fst (Stencilbuffer_ctor env width height samples w))
     = mDepthStencil (fst (DepthStencilbuffer_ctor env width height samples w)) \<and>
   (mDepthStencil (fst (DepthStencilbuffer_ctor env width height samples w)) \<noteq> None \<longrightarrow>
      RenderbufferStorage_getFormat (fst (Depthbuffer_ctor env width height samples w))
        = GL_DEPTH_COMPONENT16_OES \<and>
      RenderbufferStorage_getInternalFormat (fst (Depthbuffer_ctor env width height samples w))
        = FORMAT_D24S8 \<and>
      RenderbufferStorage_getFormat (fst (Stencilbuffer_ctor env width height samples w))
        = GL_STENCIL_INDEX8_OES \<and>
      RenderbufferStorage_getInternalFormat (fst (Stencilbuffer_ctor env width height samples w))
        = FORMAT_D24S8) \<and>
   (mDepthStencil (fst (DepthStencilbuffer_ctor env width height samples w)) = None \<longrightarrow>
      Depthbuffer_ctor env width height samples w
        = DepthStencilbuffer_ctor env width height samples w \<and>
      Stencilbuffer_ctor env width height samples w
        = DepthStencilbuffer_ctor env width height samples w)"
proof (intro conjI impI)
  assume live: "images w a = Some img"
  show "\<exists>d w'. Depthbuffer_ctor_Image env (Some a) w = Inr (d, w') \<and>
          mDepthStencil d = Some a \<and>
          RenderbufferStorage_getFormat d = GL_DEPTH_COMPONENT16_OES \<and>
          RenderbufferStorage_getInternalFormat d = imageInternalFormat img"
    by (simp add: Depthbuffer_ctor_Image_def DepthStencilbuffer_ctor_Image_live [OF live]
        RenderbufferStorage_getFormat_def RenderbufferStorage_getInternalFormat_def)
  show "\<exists>s w'. Stencilbuffer_ctor_Image env (Some a) w = Inr (s, w') \<and>
          mDepthStencil s = Some a \<and>
          RenderbufferStorage_getFormat s = GL_STENCIL_INDEX8_OES \<and>
          RenderbufferStorage_getInternalFormat s = imageInternalFormat img"
    by (simp add: Stencilbuffer_ctor_Image_def DepthStencilbuffer_ctor_Image_live [OF live]
        RenderbufferStorage_getFormat_def RenderbufferStorage_getInternalFormat_def)
next
  show "Depthbuffer_ctor_Image env None w = DepthStencilbuffer_ctor_Image env None w"
    by (simp add: Depthbuffer_ctor_Image_def DepthStencilbuffer_ctor_Image_null)
  show "Stencilbuffer_ctor_Image env None w = DepthStencilbuffer_ctor_Image env None w"
    by (simp add: Stencilbuffer_ctor_Image_def DepthStencilbuffer_ctor_Image_null)
  show "mDepthStencil (fst (Depthbuffer_ctor env width height samples w))
     = mDepthStencil (fst (DepthStencilbuffer_ctor env width height samples w))"
    by (simp add: Depthbuffer_ctor_def Let_def)
  show "mDepthStencil (fst (Stencilbuffer_ctor env width height samples w))
     = mDepthStencil (fst (DepthStencilbuffer_ctor env width height samples w))"
    by (simp add: Stencilbuffer_ctor_def Let_def)
next
  assume b: "mDepthStencil (fst (DepthStencilbuffer_ctor env width height samples w)) \<noteq> None"
  show "RenderbufferStorage_getFormat (fst (Depthbuffer_ctor env width height samples w))
        = GL_DEPTH_COMPONENT16_OES"
    using b by (simp add: Depthbuffer_ctor_def Let_def RenderbufferStorage_getFormat_def)
  show "RenderbufferStorage_getInternalFormat (fst (Depthbuffer_ctor env width height samples w))
        = FORMAT_D24S8"
    using b DepthStencilbuffer_ctor_backing [OF b]
    by (simp add: Depthbuffer_ctor_def Let_def RenderbufferStorage_getInternalFormat_def)
  show "RenderbufferStorage_getFormat (fst (Stencilbuffer_ctor env width height samples w))
        = GL_STENCIL_INDEX8_OES"
    using b by (simp add: Stencilbuffer_ctor_def Let_def RenderbufferStorage_getFormat_def)
  show "RenderbufferStorage_getInternalFormat (fst (Stencilbuffer_ctor env width height samples w))
        = FORMAT_D24S8"
    using b DepthStencilbuffer_ctor_backing [OF b]
    by (simp add: Stencilbuffer_ctor_def Let_def RenderbufferStorage_getInternalFormat_def)
next
  assume n: "mDepthStencil (fst (DepthStencilbuffer_ctor env width height samples w)) = None"
  show "Depthbuffer_ctor env width height samples w
        = DepthStencilbuffer_ctor env width height samples w"
    using n by (simp add: Depthbuffer_ctor_def Let_def)
  show "Stencilbuffer_ctor env width height samples w
        = DepthStencilbuffer_ctor env width height samples w"
    using n by (simp add: Stencilbuffer_ctor_def Let_def)
qed


text \<open>
  Wrapping the depth-stencil Image of the example world, allocating on a device that
  succeeds, and allocating on a device that fails.
\<close>

theorem single_aspect_format_witness:
  "images example_world 1 = Some example_image \<and>
   mDepthStencil (fst (DepthStencilbuffer_ctor (example_env True) 64 32 8 example_world)) \<noteq> None \<and>
   mDepthStencil (fst (DepthStencilbuffer_ctor (example_env False) 64 32 8 example_world)) = None \<and>
   (\<exists>d w'. Depthbuffer_ctor_Image (example_env True) (Some 1) example_world = Inr (d, w') \<and>
       RenderbufferStorage_getFormat d = GL_DEPTH_COMPONENT16_OES \<and>
       RenderbufferStorage_getInternalFormat d = FORMAT_D24S8) \<and>
   (\<exists>s w'. Stencilbuffer_ctor_Image (example_env True) (Some 1) example_world = Inr (s, w') \<and>
       RenderbufferStorage_getFormat s = GL_STENCIL_INDEX8_OES \<and>
       RenderbufferStorage_getInternalFormat s = FORMAT_D24S8) \<and>
   RenderbufferStorage_getFormat (fst (Depthbuffer_ctor (example_env True) 64 32 8 example_world))
     = GL_DEPTH_COMPONENT16_OES \<and>
   RenderbufferStorage_getInternalFormat
     (fst (Depthbuffer_ctor (example_env True) 64 32 8 example_world)) = FORMAT_D24S8 \<and>
   RenderbufferStorage_getFormat (fst (Stencilbuffer_ctor (example_env True) 64 32 8 example_world))
     = GL_STENCIL_INDEX8_OES \<and>
   RenderbufferStorage_getFormat (fst (Depthbuffer_ctor (example_env False) 64 32 8 example_world))
     = GL_RGBA4_OES \<and>
   RenderbufferStorage_getFormat (fst (Stencilbuffer_ctor (example_env False) 64 32 8 example_world))
     = GL_RGBA4_OES"
proof -
  have live: "images example_world 1 = Some example_image"
    by (simp add: example_world_def)
  have f: "imageInternalFormat example_image = FORMAT_D24S8"
    by (simp add: example_image_def)
  have devt: "createDepthStencilSurface (example_env True) 64 32 FORMAT_D24S8
       (getSupportedMultisampleCount (example_env True) 8) False (images example_world)
     = (Some 8, (images example_world)(8 \<mapsto>
          new_image 64 32 FORMAT_D24S8 (getSupportedMultisampleCount (example_env True) 8)))"
    by (simp add: example_env_def)
  have devf: "createDepthStencilSurface (example_env False) 64 32 FORMAT_D24S8
       (getSupportedMultisampleCount (example_env False) 8) False (images example_world)
     = (None, images example_world)"
    by (simp add: example_env_def)
  note ok = DepthStencilbuffer_ctor_allocated [OF example_signed(1) example_signed(2) devt]
  note failed = DepthStencilbuffer_ctor_failed [OF example_signed(1) example_signed(2) devf]
  have t: "mDepthStencil (fst (DepthStencilbuffer_ctor (example_env True) 64 32 8 example_world))
      \<noteq> None"
    by (simp add: ok)
  have n: "mDepthStencil (fst (DepthStencilbuffer_ctor (example_env False) 64 32 8 example_world))
      = None"
    by (simp add: failed)
  have fmt: "RenderbufferStorage_getFormat
      (fst (DepthStencilbuffer_ctor (example_env False) 64 32 8 example_world)) = GL_RGBA4_OES"
    by (simp add: failed RenderbufferStorage_getFormat_def)
  from single_aspect_format [of example_world 1 example_image "example_env True" 64 32 8]
    single_aspect_format [of example_world 1 example_image "example_env False" 64 32 8]
    live f t n fmt
  show ?thesis by auto
qed

section \<open>Reference counting of a Renderbuffer\<close>

lemma current_instance_live:
  "renderbuffers w this = Some rb \<Longrightarrow> mInstance rb = Some i \<Longrightarrow> instances w i = Some inst \<Longrightarrow>
   current_instance this w = Inr inst"
  by (simp add: current_instance_def Renderbuffer_deref_def instance_deref_def)

lemma Texture2D_addProxyRef_live:
  "textures w t = Some tex \<Longrightarrow>
   Texture2D_addProxyRef t proxy w =
     Inr (w\<lparr>textures := (textures w)(t \<mapsto> tex\<lparr>textureProxyRefs := textureProxyRefs tex + 1\<rparr>),
            calls := calls w @ [Call_Texture2D_addProxyRef t proxy]\<rparr>)"
  by (simp add: Texture2D_addProxyRef_def log_call_def)

lemma Texture2D_releaseProxy_live:
  "textures w t = Some tex \<Longrightarrow>
   Texture2D_releaseProxy t proxy w =
     Inr (w\<lparr>textures := (textures w)(t \<mapsto> tex\<lparr>textureProxyRefs := textureProxyRefs tex - 1\<rparr>),
            calls := calls w @ [Call_Texture2D_releaseProxy t proxy]\<rparr>)"
  by (simp add: Texture2D_releaseProxy_def log_call_def)

lemma storage_hooks:
  "\<not> is_RenderbufferTexture2D inst \<Longrightarrow>
   virtual_addProxyRef inst proxy w = Inr w \<and> virtual_releaseProxy inst proxy w = Inr w"
  by (cases inst)
     (simp_all add: RenderbufferInterface_addProxyRef_def RenderbufferInterface_releaseProxy_def)

lemma Object_addRef_live:
  "renderbuffers w this = Some rb \<Longrightarrow>
   Object_addRef this w =
     Inr (w\<lparr>renderbuffers := (renderbuffers w)(this \<mapsto> rb\<lparr>referenceCount := referenceCount rb + 1\<rparr>),
            calls := calls w @ [Call_Object_addRef this]\<rparr>)"
  by (simp add: Object_addRef_def Renderbuffer_deref_def log_call_def)

lemma Object_release_of_proxy:
  "renderbuffers w this = Some rb \<Longrightarrow> mInstance rb = Some i \<Longrightarrow>
   instances w i = Some (Instance_RenderbufferTexture2D r) \<Longrightarrow>
   Object_release this w =
     Inr (if referenceCount rb \<le> 1
          then w\<lparr>instances := (instances w)(i := None),
                 renderbuffers := (renderbuffers w)(this := None),
                 calls := calls w @ [Call_Object_release this]\<rparr>
          else w\<lparr>renderbuffers :=
                   (renderbuffers w)(this \<mapsto> rb\<lparr>referenceCount := referenceCount rb - 1\<rparr>),
                 calls := calls w @ [Call_Object_release this]\<rparr>)"
  by (simp add: Object_release_def Renderbuffer_deref_def log_call_def Let_def Renderbuffer_dtor_def
      delete_instance_def RenderbufferTexture2D_dtor_def)

text \<open>
  C3. For a live Renderbuffer whose \<open>mInstance\<close> points to a live instance:
  \<open>addRef()\<close> is \<open>addProxyRef(this)\<close> of the instance and then \<open>Object::addRef()\<close>,
  \<open>release()\<close> is \<open>releaseProxy(this)\<close> of the instance and then
  \<open>Object::release()\<close>. On a RenderbufferTexture2D over a live texture the hooks are
  the texture's \<open>addProxyRef(this)\<close> and \<open>releaseProxy(this)\<close>: each call of
  \<open>addRef()\<close> or \<open>release()\<close> adds to the log one call to the texture, followed by the
  one call to the base class, and moves the texture's proxy count by one. On a storage
  instance the hooks return the world unchanged and only the base class runs.
\<close>

theorem addRef_release_run_the_hooks:
  assumes "renderbuffers w this = Some rb" and "mInstance rb = Some i"
  shows
   "(instances w i = Some inst \<longrightarrow>
       Renderbuffer_addRef this w = andThen (virtual_addProxyRef inst this w) (Object_addRef this) \<and>
       Renderbuffer_release this w = andThen (virtual_releaseProxy inst this w) (Object_release this)) \<and>
    (instances w i = Some (Instance_RenderbufferTexture2D r) \<and> mTexture2D r = Some t \<and>
     textures w t = Some tex \<longrightarrow>
       virtual_addProxyRef (Instance_RenderbufferTexture2D r) this w = Texture2D_addProxyRef t this w \<and>
       virtual_releaseProxy (Instance_RenderbufferTexture2D r) this w
         = Texture2D_releaseProxy t this w \<and>
       (\<exists>w'. Renderbuffer_addRef this w = Inr w' \<and>
          calls w' = calls w @ [Call_Texture2D_addProxyRef t this, Call_Object_addRef this] \<and>
          textures w' t = Some (tex\<lparr>textureProxyRefs := textureProxyRefs tex + 1\<rparr>) \<and>
          renderbuffers w' this = Some (rb\<lparr>referenceCount := referenceCount rb + 1\<rparr>)) \<and>
       (\<exists>w'. Renderbuffer_release this w = Inr w' \<and>
          calls w' = calls w @ [Call_Texture2D_releaseProxy t this, Call_Object_release this] \<and>
          textures w' t = Some (tex\<lparr>textureProxyRefs := textureProxyRefs tex - 1\<rparr>))) \<and>
    (instances w i = Some inst \<and> \<not> is_RenderbufferTexture2D inst \<longrightarrow>
       virtual_addProxyRef inst this w = Inr w \<and>
       virtual_releaseProxy inst this w = Inr w \<and>
       Renderbuffer_addRef this w = Object_addRef this w \<and>
       Renderbuffer_release this w = Object_release this w)"
proof (intro conjI impI)
  assume inst: "instances w i = Some inst"
  note cur = current_instance_live [OF assms inst]
  show "Renderbuffer_addRef this w = andThen (virtual_addProxyRef inst this w) (Object_addRef this)"
    by (simp add: Renderbuffer_addRef_def cur)
  show "Renderbuffer_release this w
      = andThen (virtual_releaseProxy inst this w) (Object_release this)"
    by (simp add: Renderbuffer_release_def cur)
next
  assume h: "instances w i = Some (Instance_RenderbufferTexture2D r) \<and> mTexture2D r = Some t \<and>
     textures w t = Some tex"
  then have inst: "instances w i = Some (Instance_RenderbufferTexture2D r)"
    and r: "mTexture2D r = Some t" and tex: "textures w t = Some tex"
    by simp_all
  note cur = current_instance_live [OF assms inst]
  let ?wa = "w\<lparr>textures := (textures w)(t \<mapsto> tex\<lparr>textureProxyRefs := textureProxyRefs tex + 1\<rparr>),
               calls := calls w @ [Call_Texture2D_addProxyRef t this]\<rparr>"
  let ?wr = "w\<lparr>textures := (textures w)(t \<mapsto> tex\<lparr>textureProxyRefs := textureProxyRefs tex - 1\<rparr>),
               calls := calls w @ [Call_Texture2D_releaseProxy t this]\<rparr>"
  show "virtual_addProxyRef (Instance_RenderbufferTexture2D r) this w
      = Texture2D_addProxyRef t this w"
    by (simp add: RenderbufferTexture2D_addProxyRef_def texture_of_def r)
  show "virtual_releaseProxy (Instance_RenderbufferTexture2D r) this w
      = Texture2D_releaseProxy t this w"
    by (simp add: RenderbufferTexture2D_releaseProxy_def texture_of_def r)
  have "Renderbuffer_addRef this w = Object_addRef this ?wa"
    by (simp add: Renderbuffer_addRef_def cur RenderbufferTexture2D_addProxyRef_def texture_of_def r
        Texture2D_addProxyRef_live [OF tex])
  moreover have "renderbuffers ?wa this = Some rb"
    using assms(1) by simp
  ultimately show "\<exists>w'. Renderbuffer_addRef this w = Inr w' \<and>
          calls w' = calls w @ [Call_Texture2D_addProxyRef t this, Call_Object_addRef this] \<and>
          textures w' t = Some (tex\<lparr>textureProxyRefs := textureProxyRefs tex + 1\<rparr>) \<and>
          renderbuffers w' this = Some (rb\<lparr>referenceCount := referenceCount rb + 1\<rparr>)"
    by (simp add: Object_addRef_live)
  have "Renderbuffer_release this w = Object_release this ?wr"
    by (simp add: Renderbuffer_release_def cur RenderbufferTexture2D_releaseProxy_def texture_of_def r
        Texture2D_releaseProxy_live [OF tex])
  moreover have "renderbuffers ?wr this = Some rb"
    "instances ?wr i = Some (Instance_RenderbufferTexture2D r)"
    using assms(1) inst by simp_all
  ultimately show "\<exists>w'. Renderbuffer_release this w = Inr w' \<and>
          calls w' = calls w @ [Call_Texture2D_releaseProxy t this, Call_Object_release this] \<and>
          textures w' t = Some (tex\<lparr>textureProxyRefs := textureProxyRefs tex - 1\<rparr>)"
    using assms(2) by (simp add: Object_release_of_proxy)
next
  assume h: "instances w i = Some inst \<and> \<not> is_RenderbufferTexture2D inst"
  then have inst: "instances w i = Some inst" and st: "\<not> is_RenderbufferTexture2D inst"
    by simp_all
  note cur = current_instance_live [OF assms inst]
  show "virtual_addProxyRef inst this w = Inr w"
    by (simp add: storage_hooks [OF st])
  show "virtual_releaseProxy inst this w = Inr w"
    by (simp add: storage_hooks [OF st])
  show "Renderbuffer_addRef this w = Object_addRef this w"
    by (simp add: Renderbuffer_addRef_def cur storage_hooks [OF st])
  show "Renderbuffer_release this w = Object_release this w"
    by (simp add: Renderbuffer_release_def cur storage_hooks [OF st])
qed


text \<open>The two Renderbuffers of the scene.\<close>

theorem addRef_release_run_the_hooks_witness:
  "renderbuffers example_scene 10 = Some example_proxy_Renderbuffer \<and>
   renderbuffers example_scene 11 = Some example_color_Renderbuffer \<and>
   (\<exists>w'. Renderbuffer_addRef 10 example_scene = Inr w' \<and>
      calls w' = [Call_Texture2D_addProxyRef 2 10, Call_Object_addRef 10] \<and>
      textures w' 2 = Some (example_texture\<lparr>textureProxyRefs := 2\<rparr>)) \<and>
   (\<exists>w'. Renderbuffer_release 10 example_scene = Inr w' \<and>
      calls w' = [Call_Texture2D_releaseProxy 2 10, Call_Object_release 10] \<and>
      textures w' 2 = Some (example_texture\<lparr>textureProxyRefs := 0\<rparr>)) \<and>
   Renderbuffer_addRef 11 example_scene = Object_addRef 11 example_scene \<and>
   Renderbuffer_release 11 example_scene = Object_release 11 example_scene"
proof -
  have rb10: "renderbuffers example_scene 10 = Some example_proxy_Renderbuffer"
    and rb11: "renderbuffers example_scene 11 = Some example_color_Renderbuffer"
    and i3: "instances example_scene 3 = Some (Instance_RenderbufferTexture2D \<lparr>mTexture2D = Some 2\<rparr>)"
    and i4: "instances example_scene 4 = Some (Instance_Colorbuffer (example_Colorbuffer (Some 1)))"
    and t2: "textures example_scene 2 = Some example_texture"
    and log: "calls example_scene = []"
    by (simp_all add: example_scene_def)
  have m10: "mInstance example_proxy_Renderbuffer = Some 3"
    by (simp add: example_proxy_Renderbuffer_def)
  have m11: "mInstance example_color_Renderbuffer = Some 4"
    by (simp add: example_color_Renderbuffer_def)
  have refs: "textureProxyRefs example_texture + 1 = 2" "textureProxyRefs example_texture - 1 = 0"
    by (simp_all add: example_texture_def)
  note proxy = addRef_release_run_the_hooks [OF rb10 m10,
      of "Instance_RenderbufferTexture2D \<lparr>mTexture2D = Some 2\<rparr>" "\<lparr>mTexture2D = Some 2\<rparr>" 2
        example_texture]
  note color = addRef_release_run_the_hooks [OF rb11 m11,
      of "Instance_Colorbuffer (example_Colorbuffer (Some 1))" "\<lparr>mTexture2D = Some 2\<rparr>" 2
        example_texture]
  from proxy i3 t2 have a:
    "\<exists>w'. Renderbuffer_addRef 10 example_scene = Inr w' \<and>
       calls w' = calls example_scene @ [Call_Texture2D_addProxyRef 2 10, Call_Object_addRef 10] \<and>
       textures w' 2 = Some (example_texture\<lparr>textureProxyRefs := textureProxyRefs example_texture + 1\<rparr>) \<and>
       renderbuffers w' 10 = Some (example_proxy_Renderbuffer
         \<lparr>referenceCount := referenceCount example_proxy_Renderbuffer + 1\<rparr>)"
    by (metis RenderbufferTexture2D.select_convs(1))
  from proxy i3 t2 have r:
    "\<exists>w'. Renderbuffer_release 10 example_scene = Inr w' \<and>
       calls w' = calls example_scene @ [Call_Texture2D_releaseProxy 2 10, Call_Object_release 10] \<and>
       textures w' 2 = Some (example_texture\<lparr>textureProxyRefs := textureProxyRefs example_texture - 1\<rparr>)"
    by (metis RenderbufferTexture2D.select_convs(1))
  from color i4 have c:
    "Renderbuffer_addRef 11 example_scene = Object_addRef 11 example_scene \<and>
     Renderbuffer_release 11 example_scene = Object_release 11 example_scene"
    by (metis RenderbufferInterface.disc(2))
  from a r c rb10 rb11 show ?thesis
    by (simp only: log refs append_Nil simp_thms) blast
qed

section \<open>Replacing the storage\<close>

lemma Image_release_live:
  "images w a = Some img \<Longrightarrow>
   Image_release a w =
     Inr (w\<lparr>images :=
              (if imageReferenceCount img \<le> 1 then (images w)(a := None)
               else (images w)(a \<mapsto> img\<lparr>imageReferenceCount := imageReferenceCount img - 1\<rparr>)),
            calls := calls w @ [Call_Image_release a]\<rparr>)"
  by (simp add: Image_release_def log_call_def)

lemma virtual_dtor_no_backing: "backing_of inst = None \<Longrightarrow> virtual_dtor inst w = Inr w"
  by (cases inst)
     (simp_all add: RenderbufferTexture2D_dtor_def Colorbuffer_dtor_def DepthStencilbuffer_dtor_def)

lemma virtual_dtor_backing: "backing_of inst = Some a \<Longrightarrow> virtual_dtor inst w = Image_release a w"
  by (cases inst)
     (simp_all add: RenderbufferTexture2D_dtor_def Colorbuffer_dtor_def DepthStencilbuffer_dtor_def)

lemma storage_queries:
  assumes "\<not> is_RenderbufferTexture2D inst"
  shows "virtual_getWidth inst w' = virtual_getWidth inst w"
    and "virtual_getHeight inst w' = virtual_getHeight inst w"
    and "virtual_getFormat inst w' = virtual_getFormat inst w"
    and "virtual_getInternalFormat inst w' = virtual_getInternalFormat inst w"
    and "virtual_getSamples inst w' = virtual_getSamples inst w"
    and "RenderbufferInterface_getSize size_of inst w' = RenderbufferInterface_getSize size_of inst w"
  using assms by (cases inst; simp add: RenderbufferInterface_getSize_def)+

lemma setStorage_result:
  assumes rb: "renderbuffers w this = Some rb"
    and old: "mInstance rb = Some old"
    and oldInst: "instances w old = Some oldInst"
    and dtor: "virtual_dtor oldInst w = Inr wd"
  shows "Renderbuffer_setStorage this (Some new) w =
     Inr (wd\<lparr>instances := (instances wd)(old := None),
             renderbuffers := (renderbuffers wd)(this \<mapsto> rb\<lparr>mInstance := Some new\<rparr>)\<rparr>)"
  by (simp add: Renderbuffer_setStorage_def Renderbuffer_deref_def rb old delete_instance_def
      oldInst dtor)

lemma example_scene_facts:
  "renderbuffers example_scene 10 = Some example_proxy_Renderbuffer"
  "renderbuffers example_scene 11 = Some example_color_Renderbuffer"
  "mInstance example_proxy_Renderbuffer = Some 3"
  "mInstance example_color_Renderbuffer = Some 4"
  "instances example_scene 3 = Some (Instance_RenderbufferTexture2D \<lparr>mTexture2D = Some 2\<rparr>)"
  "instances example_scene 4 = Some (Instance_Colorbuffer (example_Colorbuffer (Some 1)))"
  "instances example_scene 5 = Some (Instance_DepthStencilbuffer (example_DepthStencilbuffer None))"
  "images example_scene 1 = Some (example_color_image\<lparr>imageReferenceCount := 2\<rparr>)"
  "calls example_scene = []"
  by (simp_all add: example_scene_def example_proxy_Renderbuffer_def example_color_Renderbuffer_def)

text \<open>
  C2 as stated: for every non-null \<open>newStorage\<close>, the queries after
  \<open>setStorage(newStorage)\<close> reflect \<open>newStorage\<close>. In the scene, Renderbuffer 11 holds
  the Colorbuffer at address 4, which reports width 64. \<open>setStorage\<close> with that same
  pointer deletes the object and then installs the pointer: afterwards \<open>mInstance\<close>
  points to no object, and the queries run on a deleted object.
\<close>

theorem setStorage_same_instance_counterexample:
  "renderbuffers example_scene 11 = Some example_color_Renderbuffer \<and>
   mInstance example_color_Renderbuffer = Some 4 \<and>
   instances example_scene 4 = Some (Instance_Colorbuffer (example_Colorbuffer (Some 1))) \<and>
   virtual_getWidth (Instance_Colorbuffer (example_Colorbuffer (Some 1))) example_scene = Inr 64 \<and>
   \<not> isl (Renderbuffer_setStorage 11 (Some 4) example_scene) \<and>
   instances (projr (Renderbuffer_setStorage 11 (Some 4) example_scene)) 4 = None \<and>
   mInstance (the (renderbuffers (projr (Renderbuffer_setStorage 11 (Some 4) example_scene)) 11))
     = Some 4 \<and>
   Renderbuffer_getWidth 11 (projr (Renderbuffer_setStorage 11 (Some 4) example_scene))
     = Inl UseAfterFree \<and>
   Renderbuffer_getRenderTarget 11 (projr (Renderbuffer_setStorage 11 (Some 4) example_scene))
     = Inl UseAfterFree"
proof -
  note f = example_scene_facts
  let ?img = "example_color_image\<lparr>imageReferenceCount := 2\<rparr>"
  let ?wd = "example_scene\<lparr>images :=
              (if imageReferenceCount ?img \<le> 1 then (images example_scene)(1 := None)
               else (images example_scene)
                      (1 \<mapsto> ?img\<lparr>imageReferenceCount := imageReferenceCount ?img - 1\<rparr>)),
            calls := calls example_scene @ [Call_Image_release 1]\<rparr>"
  have dtor: "virtual_dtor (Instance_Colorbuffer (example_Colorbuffer (Some 1))) example_scene
      = Inr ?wd"
    using Image_release_live [OF f(8)]
    by (simp add: Colorbuffer_dtor_def example_Colorbuffer_def)
  note res = setStorage_result [OF f(2) f(4) f(6) dtor, of 4]
  have wdt: "virtual_getWidth (Instance_Colorbuffer (example_Colorbuffer (Some 1))) example_scene
      = Inr 64"
    by (simp add: example_Colorbuffer_def RenderbufferStorage_getWidth_def)
  show ?thesis
    unfolding res using f(2) f(4) f(6) wdt
    by (simp add: Renderbuffer_getWidth_def Renderbuffer_getRenderTarget_def current_instance_def
        Renderbuffer_deref_def instance_deref_def)
qed


text \<open>
  C2, amended. For a live Renderbuffer whose \<open>mInstance\<close> points to a live instance
  (holding no Image, or a live one) and a pointer \<open>new\<close> to a live storage object other
  than the installed instance: \<open>setStorage(new)\<close> removes the old instance from the heap,
  having released its Image once (one \<open>release\<close> in the log, the count one lower or the
  Image destroyed with its last reference) or made no call when it held none; it leaves the
  new object as it was and \<open>mInstance\<close> pointing to it. Afterwards the current instance
  is the new object: the field and size queries give what the new object gave before the
  swap, and \<open>getRenderTarget\<close>, \<open>createSharedImage\<close> and \<open>isShared\<close> are those of
  the new object.
\<close>

theorem setStorage_swaps_the_instance:
  assumes rb: "renderbuffers w this = Some rb"
    and old: "mInstance rb = Some old"
    and oldInst: "instances w old = Some oldInst"
    and newInst: "instances w new = Some newInst"
    and storage: "\<not> is_RenderbufferTexture2D newInst"
    and distinct: "new \<noteq> old"
    and backing: "backing_of oldInst = None \<or> backing_of oldInst = Some a \<and> images w a = Some img"
  shows
   "\<exists>w'. Renderbuffer_setStorage this (Some new) w = Inr w' \<and>
      instances w' = (instances w)(old := None) \<and>
      instances w' new = Some newInst \<and>
      renderbuffers w' = (renderbuffers w)(this \<mapsto> rb\<lparr>mInstance := Some new\<rparr>) \<and>
      textures w' = textures w \<and>
      (backing_of oldInst = None \<longrightarrow> calls w' = calls w \<and> images w' = images w) \<and>
      (backing_of oldInst = Some a \<longrightarrow>
         calls w' = calls w @ [Call_Image_release a] \<and>
         images w' =
           (if imageReferenceCount img \<le> 1 then (images w)(a := None)
            else (images w)(a \<mapsto> img\<lparr>imageReferenceCount := imageReferenceCount img - 1\<rparr>))) \<and>
      current_instance this w' = Inr newInst \<and>
      Renderbuffer_getWidth this w' = virtual_getWidth newInst w \<and>
      Renderbuffer_getHeight this w' = virtual_getHeight newInst w \<and>
      Renderbuffer_getFormat this w' = virtual_getFormat newInst w \<and>
      Renderbuffer_getInternalFormat this w' = virtual_getInternalFormat newInst w \<and>
      Renderbuffer_getSamples this w' = virtual_getSamples newInst w \<and>
      Renderbuffer_getRedSize env this w' = RenderbufferInterface_getRedSize env newInst w \<and>
      Renderbuffer_getGreenSize env this w' = RenderbufferInterface_getGreenSize env newInst w \<and>
      Renderbuffer_getBlueSize env this w' = RenderbufferInterface_getBlueSize env newInst w \<and>
      Renderbuffer_getAlphaSize env this w' = RenderbufferInterface_getAlphaSize env newInst w \<and>
      Renderbuffer_getDepthSize env this w' = RenderbufferInterface_getDepthSize env newInst w \<and>
      Renderbuffer_getStencilSize env this w' = RenderbufferInterface_getStencilSize env newInst w \<and>
      Renderbuffer_getRenderTarget this w' = virtual_getRenderTarget newInst w' \<and>
      Renderbuffer_createSharedImage this w' = virtual_createSharedImage newInst w' \<and>
      Renderbuffer_isShared this w' = virtual_isShared newInst w'"
proof -
  obtain wd where dtor: "virtual_dtor oldInst w = Inr wd"
    and same: "instances wd = instances w" "renderbuffers wd = renderbuffers w"
      "textures wd = textures w"
    and none: "backing_of oldInst = None \<longrightarrow> calls wd = calls w \<and> images wd = images w"
    and some: "backing_of oldInst = Some a \<longrightarrow>
         calls wd = calls w @ [Call_Image_release a] \<and>
         images wd =
           (if imageReferenceCount img \<le> 1 then (images w)(a := None)
            else (images w)(a \<mapsto> img\<lparr>imageReferenceCount := imageReferenceCount img - 1\<rparr>))"
  proof (cases "backing_of oldInst")
    case None
    then show ?thesis
      using that [of w] by (simp add: virtual_dtor_no_backing)
  next
    case (Some b)
    with backing have b: "b = a" and live: "images w a = Some img"
      by simp_all
    show ?thesis
      using that [of "w\<lparr>images :=
              (if imageReferenceCount img \<le> 1 then (images w)(a := None)
               else (images w)(a \<mapsto> img\<lparr>imageReferenceCount := imageReferenceCount img - 1\<rparr>)),
            calls := calls w @ [Call_Image_release a]\<rparr>"] Some b
      by (simp add: virtual_dtor_backing Image_release_live [OF live])
  qed
  let ?w' = "wd\<lparr>instances := (instances w)(old := None),
             renderbuffers := (renderbuffers w)(this \<mapsto> rb\<lparr>mInstance := Some new\<rparr>)\<rparr>"
  have res: "Renderbuffer_setStorage this (Some new) w = Inr ?w'"
    using setStorage_result [OF rb old oldInst dtor, of new] by (simp add: same)
  have cur: "current_instance this ?w' = Inr newInst"
    using newInst distinct
    by (simp add: current_instance_def Renderbuffer_deref_def instance_deref_def)
  note q = storage_queries [OF storage, where w' = ?w' and w = w]
  show ?thesis
    unfolding res
    apply (rule exI [of _ ?w'])
    apply (intro conjI)
    using none some newInst distinct
    apply (simp_all add: same(3) cur q Renderbuffer_getWidth_def Renderbuffer_getHeight_def
        Renderbuffer_getFormat_def Renderbuffer_getInternalFormat_def Renderbuffer_getSamples_def
        Renderbuffer_getRedSize_def Renderbuffer_getGreenSize_def Renderbuffer_getBlueSize_def
        Renderbuffer_getAlphaSize_def Renderbuffer_getDepthSize_def Renderbuffer_getStencilSize_def
        Renderbuffer_getRenderTarget_def Renderbuffer_createSharedImage_def Renderbuffer_isShared_def
        RenderbufferInterface_getRedSize_def RenderbufferInterface_getGreenSize_def
        RenderbufferInterface_getBlueSize_def RenderbufferInterface_getAlphaSize_def
        RenderbufferInterface_getDepthSize_def RenderbufferInterface_getStencilSize_def)
    done
qed


text \<open>
  Replacing the Colorbuffer of Renderbuffer 11 (which holds one of the two references to
  the Image) and the texture proxy of Renderbuffer 10 by the DepthStencilbuffer at 5.
\<close>

theorem setStorage_swaps_the_instance_witness:
  "renderbuffers example_scene 11 = Some example_color_Renderbuffer \<and>
   mInstance example_color_Renderbuffer = Some 4 \<and>
   instances example_scene 4 = Some (Instance_Colorbuffer (example_Colorbuffer (Some 1))) \<and>
   instances example_scene 5 = Some (Instance_DepthStencilbuffer (example_DepthStencilbuffer None)) \<and>
   images example_scene 1 = Some (example_color_image\<lparr>imageReferenceCount := 2\<rparr>) \<and>
   (\<exists>w'. Renderbuffer_setStorage 11 (Some 5) example_scene = Inr w' \<and>
      instances w' 4 = None \<and>
      instances w' 5 = Some (Instance_DepthStencilbuffer (example_DepthStencilbuffer None)) \<and>
      calls w' = [Call_Image_release 1] \<and>
      images w' 1 = Some (example_color_image\<lparr>imageReferenceCount := 1\<rparr>) \<and>
      Renderbuffer_getFormat 11 w' = Inr GL_DEPTH24_STENCIL8_OES \<and>
      Renderbuffer_getInternalFormat 11 w' = Inr FORMAT_D24S8) \<and>
   (\<exists>w'. Renderbuffer_setStorage 10 (Some 5) example_scene = Inr w' \<and>
      instances w' 3 = None \<and>
      calls w' = [] \<and>
      Renderbuffer_getFormat 10 w' = Inr GL_DEPTH24_STENCIL8_OES)"
proof -
  note f = example_scene_facts
  let ?img = "example_color_image\<lparr>imageReferenceCount := 2\<rparr>"
  let ?new = "Instance_DepthStencilbuffer (example_DepthStencilbuffer None)"
  have st: "\<not> is_RenderbufferTexture2D ?new"
    by simp
  have b4: "backing_of (Instance_Colorbuffer (example_Colorbuffer (Some 1))) = None \<or>
      backing_of (Instance_Colorbuffer (example_Colorbuffer (Some 1))) = Some 1 \<and>
      images example_scene 1 = Some ?img"
    using f(8) by (simp add: example_Colorbuffer_def)
  have b3: "backing_of (Instance_RenderbufferTexture2D \<lparr>mTexture2D = Some 2\<rparr>) = None \<or>
      backing_of (Instance_RenderbufferTexture2D \<lparr>mTexture2D = Some 2\<rparr>) = Some 1 \<and>
      images example_scene 1 = Some ?img"
    by simp
  have q: "virtual_getFormat ?new example_scene = Inr GL_DEPTH24_STENCIL8_OES"
    "virtual_getInternalFormat ?new example_scene = Inr FORMAT_D24S8"
    by (simp_all add: example_DepthStencilbuffer_def RenderbufferStorage_getFormat_def
        RenderbufferStorage_getInternalFormat_def)
  have c: "backing_of (Instance_Colorbuffer (example_Colorbuffer (Some 1))) = Some 1"
    "backing_of (Instance_RenderbufferTexture2D \<lparr>mTexture2D = Some 2\<rparr>) = None"
    by (simp_all add: example_Colorbuffer_def)
  have rc: "\<not> imageReferenceCount ?img \<le> 1"
    "?img\<lparr>imageReferenceCount := imageReferenceCount ?img - 1\<rparr>
       = example_color_image\<lparr>imageReferenceCount := 1\<rparr>"
    by simp_all
  have d: "(5::nat) \<noteq> 4" "(5::nat) \<noteq> 3"
    by simp_all
  from setStorage_swaps_the_instance [OF f(2) f(4) f(6) f(7) st d(1) b4, of "example_env True"]
  obtain w1 where w1: "Renderbuffer_setStorage 11 (Some 5) example_scene = Inr w1"
      "instances w1 = (instances example_scene)(4 := None)"
      "instances w1 5 = Some ?new"
      "calls w1 = calls example_scene @ [Call_Image_release 1]"
      "images w1 = (images example_scene)(1 \<mapsto> example_color_image\<lparr>imageReferenceCount := 1\<rparr>)"
      "Renderbuffer_getFormat 11 w1 = Inr GL_DEPTH24_STENCIL8_OES"
      "Renderbuffer_getInternalFormat 11 w1 = Inr FORMAT_D24S8"
    unfolding q c using rc by auto
  from setStorage_swaps_the_instance [OF f(1) f(3) f(5) f(7) st d(2) b3, of "example_env True"]
  obtain w2 where w2: "Renderbuffer_setStorage 10 (Some 5) example_scene = Inr w2"
      "instances w2 = (instances example_scene)(3 := None)"
      "calls w2 = calls example_scene"
      "Renderbuffer_getFormat 10 w2 = Inr GL_DEPTH24_STENCIL8_OES"
    unfolding q c by auto
  show ?thesis
    using w1 w2 f by simp
qed

end
